theory Spec2Isabelle
  imports Complex_Main
begin

section \<open>Data model (types.ts, constants.ts)\<close>

text \<open>
  JavaScript numbers are modelled as mathematical reals; the two counters that the program
  only ever changes by whole steps (the score and a battery's missile stock) are integers.
  The identifier of a missile, enemy or explosion is a random string that no code reads
  and is left out. The \<open>target\<close> field, optional on the source's \<open>Entity\<close>, is
  set by both places that build a missile or an enemy and by no place that builds an
  explosion, and \<open>update\<close> reads it through a non-null assertion: it is a plain field of
  \<open>Missile\<close> and no field of \<open>Explosion\<close>. \<open>Missile\<close> and \<open>Enemy\<close> have the
  same fields and are one record type. The fields \<open>id\<close>, \<open>pos\<close> and
  \<open>destroyed\<close> of \<open>Battery\<close> and \<open>City\<close> carry the prefixes \<open>b_\<close> and \<open>c_\<close>.
\<close>

datatype GameMode = LOW | NORMAL | HIGH | ULTRA | FUTURE

datatype Status = START | PLAYING | WON | LOST

record Point =
  x :: real
  y :: real

record Entity =
  pos :: Point
  speed :: real
  radius :: real
  color :: string
  active :: bool

record Missile = Entity +
  target :: Point
  startPos :: Point

type_synonym Enemy = Missile

record Explosion = Entity +
  maxRadius :: real
  growthRate :: real
  isShrinking :: bool

record Battery =
  b_id :: string
  b_pos :: Point
  missiles :: int
  maxMissiles :: int
  b_destroyed :: bool

record City =
  c_id :: string
  c_pos :: Point
  c_destroyed :: bool

record GameState =
  score :: int
  level :: int
  mode :: GameMode
  status :: Status

definition GAME_WIDTH :: real where
  "GAME_WIDTH = 800"

definition WIN_SCORE :: int where
  "WIN_SCORE = 1000"

fun speedMult :: "GameMode \<Rightarrow> real" where
  "speedMult LOW = 1.0"
| "speedMult NORMAL = 1.4"
| "speedMult HIGH = 1.8"
| "speedMult ULTRA = 2.2"
| "speedMult FUTURE = 2.6"

fun powerMult :: "GameMode \<Rightarrow> real" where
  "powerMult LOW = 1.0"
| "powerMult NORMAL = 1.1"
| "powerMult HIGH = 1.2"
| "powerMult ULTRA = 1.3"
| "powerMult FUTURE = 1.4"

definition COLORS_PLAYER_MISSILE :: string where
  "COLORS_PLAYER_MISSILE = ''#00ffcc''"

definition COLORS_ENEMY_MISSILE :: string where
  "COLORS_ENEMY_MISSILE = ''#ff4444''"

definition COLORS_EXPLOSION :: string where
  "COLORS_EXPLOSION = ''rgba(255, 255, 255, 0.8)''"

definition INITIAL_BATTERIES :: "Battery list" where
  "INITIAL_BATTERIES =
    [\<lparr>b_id = ''b1'', b_pos = \<lparr>x = 100, y = 560\<rparr>, missiles = 20, maxMissiles = 20,
      b_destroyed = False\<rparr>,
     \<lparr>b_id = ''b2'', b_pos = \<lparr>x = 400, y = 560\<rparr>, missiles = 40, maxMissiles = 40,
      b_destroyed = False\<rparr>,
     \<lparr>b_id = ''b3'', b_pos = \<lparr>x = 700, y = 560\<rparr>, missiles = 20, maxMissiles = 20,
      b_destroyed = False\<rparr>]"

definition INITIAL_CITIES :: "City list" where
  "INITIAL_CITIES =
    [\<lparr>c_id = ''c1'', c_pos = \<lparr>x = 200, y = 570\<rparr>, c_destroyed = False\<rparr>,
     \<lparr>c_id = ''c2'', c_pos = \<lparr>x = 300, y = 570\<rparr>, c_destroyed = False\<rparr>,
     \<lparr>c_id = ''c3'', c_pos = \<lparr>x = 500, y = 570\<rparr>, c_destroyed = False\<rparr>,
     \<lparr>c_id = ''c4'', c_pos = \<lparr>x = 600, y = 570\<rparr>, c_destroyed = False\<rparr>]"

section \<open>The state of the component App\<close>

text \<open>
  The React state (\<open>gameState\<close>, \<open>batteries\<close>, \<open>cities\<close>) and the refs of the game
  loop, as one record that every handler takes and returns. A handler runs to its end
  before the next one starts, and the component is rendered again between two handlers,
  so a handler's closure holds the state as the previous handler left it.
\<close>

record State =
  gameState :: GameState
  batteries :: "Battery list"
  cities :: "City list"
  missilesRef :: "Missile list"
  enemiesRef :: "Enemy list"
  explosionsRef :: "Explosion list"
  lastTimeRef :: real
  spawnTimerRef :: real
  scoreRef :: int

definition initialState :: State where
  "initialState =
    \<lparr>gameState = \<lparr>score = 0, level = 1, mode = NORMAL, status = START\<rparr>,
     batteries = INITIAL_BATTERIES, cities = INITIAL_CITIES,
     missilesRef = [], enemiesRef = [], explosionsRef = [],
     lastTimeRef = 0, spawnTimerRef = 0, scoreRef = 0\<rparr>"

text \<open>
  A result of \<open>Math.random()\<close>: a number in \<open>[0, 1)\<close>. A frame draws at most four of
  them that the simulation reads, all in the spawner.
\<close>

typedef rand01 = "{r::real. 0 \<le> r \<and> r < 1}"
  by (rule exI[of _ 0]) simp

record Draws =
  rTarget :: rand01
  rPosX :: rand01
  rStartX :: rand01
  rSpeed :: rand01

section \<open>startGame\<close>

definition startGame :: "GameMode \<Rightarrow> State \<Rightarrow> State" where
  "startGame m s =
    s\<lparr>gameState := \<lparr>score = 0, level = 1, mode = m, status = PLAYING\<rparr>,
      scoreRef := 0,
      lastTimeRef := 0,
      batteries := map (\<lambda>b. b\<lparr>missiles := maxMissiles b, b_destroyed := False\<rparr>)
                     INITIAL_BATTERIES,
      cities := map (\<lambda>c. c\<lparr>c_destroyed := False\<rparr>) INITIAL_CITIES,
      missilesRef := [],
      enemiesRef := [],
      explosionsRef := [],
      spawnTimerRef := 0\<rparr>"

section \<open>handleCanvasClick\<close>

text \<open>
  The search for the closest battery that is not destroyed and has missiles left. The pair
  \<open>(bestBattery, minDist)\<close> of the source starts as \<open>(null, Infinity)\<close>, which is
  \<open>None\<close> here: every distance is smaller than \<open>Infinity\<close>.
\<close>

definition closerBattery ::
  "real \<Rightarrow> (Battery \<times> real) option \<Rightarrow> Battery \<Rightarrow> (Battery \<times> real) option" where
  "closerBattery targetX best b =
    (if \<not> b_destroyed b \<and> missiles b > 0 then
       (let dist = \<bar>x (b_pos b) - targetX\<bar> in
        case best of
          None \<Rightarrow> Some (b, dist)
        | Some (bestBattery, minDist) \<Rightarrow> if dist < minDist then Some (b, dist) else best)
     else best)"

definition findBestBattery :: "real \<Rightarrow> Battery list \<Rightarrow> (Battery \<times> real) option" where
  "findBestBattery targetX bs = foldl (closerBattery targetX) None bs"

text \<open>
  The launch itself (the handler from the comment \<open>Find closest active battery with
  missiles\<close> to its end), for the playfield point that the handler has computed from the
  event.
\<close>

definition launchRequest :: "State \<Rightarrow> Point \<Rightarrow> State" where
  "launchRequest s p =
    (case findBestBattery (x p) (batteries s) of
       None \<Rightarrow> s
     | Some (b, minDist) \<Rightarrow>
         s\<lparr>batteries :=
             map (\<lambda>pb. if b_id pb = b_id b then pb\<lparr>missiles := missiles pb - 1\<rparr> else pb)
                 (batteries s),
           missilesRef := missilesRef s @
             [\<lparr>pos = b_pos b, speed = 5 * speedMult (mode (gameState s)), radius = 2,
               color = COLORS_PLAYER_MISSILE, active = True,
               target = \<lparr>x = x p, y = y p\<rparr>, startPos = b_pos b\<rparr>]\<rparr>)"

definition handleCanvasClick :: "State \<Rightarrow> Point \<Rightarrow> State" where
  "handleCanvasClick s p =
    (if status (gameState s) \<noteq> PLAYING then s else launchRequest s p)"

section \<open>update: one frame\<close>

subsection \<open>Spawn enemies\<close>

definition spawnInterval :: "int \<Rightarrow> real" where
  "spawnInterval sc = max 500 (2000 - (real_of_int sc / 100) * 100)"

text \<open>
  \<open>cities\<close> and \<open>batteries\<close> are the values of the closure, the state at the start
  of the frame. The source collects the objects and reads \<open>pos\<close> of the chosen one;
  the list below holds the positions.
\<close>

definition spawnEnemies :: "Draws \<Rightarrow> real \<Rightarrow> State \<Rightarrow> State" where
  "spawnEnemies rnd deltaTime s =
    (let s1 = s\<lparr>spawnTimerRef := spawnTimerRef s + deltaTime\<rparr> in
     if spawnTimerRef s1 > spawnInterval (scoreRef s1) then
       (let s2 = s1\<lparr>spawnTimerRef := 0\<rparr>;
            targetOptions = map c_pos (filter (\<lambda>c. \<not> c_destroyed c) (cities s)) @
                            map b_pos (filter (\<lambda>b. \<not> b_destroyed b) (batteries s))
        in if length targetOptions > 0 then
             (let tg = targetOptions !
                         nat \<lfloor>Rep_rand01 (rTarget rnd) * real (length targetOptions)\<rfloor>
              in s2\<lparr>enemiesRef := enemiesRef s2 @
                    [\<lparr>pos = \<lparr>x = Rep_rand01 (rPosX rnd) * GAME_WIDTH, y = - 20\<rparr>,
                      speed = (0.8 + Rep_rand01 (rSpeed rnd) * 0.6)
                                * speedMult (mode (gameState s)),
                      radius = 2, color = COLORS_ENEMY_MISSILE, active = True,
                      target = tg,
                      startPos = \<lparr>x = Rep_rand01 (rStartX rnd) * GAME_WIDTH, y = - 20\<rparr>\<rparr>]\<rparr>)
           else s2)
     else s1)"

subsection \<open>Update player missiles\<close>

definition updateMissile ::
  "real \<Rightarrow> real \<Rightarrow> Missile \<Rightarrow> Explosion list \<Rightarrow> Missile \<times> Explosion list" where
  "updateMissile speedScale pm m exps =
    (if \<not> active m then (m, exps)
     else
       (let dx = x (target m) - x (pos m);
            dy = y (target m) - y (pos m);
            dist = sqrt (dx * dx + dy * dy);
            moveDist = speed m * speedScale
        in if dist \<le> moveDist \<or> dist = 0 then
             (m\<lparr>active := False\<rparr>,
              exps @ [\<lparr>pos = target m, speed = 0, radius = 2, color = COLORS_EXPLOSION,
                       active = True, maxRadius = 96 * pm, growthRate = 3.0 * speedScale,
                       isShrinking = False\<rparr>])
           else
             (m\<lparr>pos := \<lparr>x = x (pos m) + (dx / dist) * moveDist,
                        y = y (pos m) + (dy / dist) * moveDist\<rparr>\<rparr>,
              exps)))"

fun updateMissiles ::
  "real \<Rightarrow> real \<Rightarrow> Missile list \<Rightarrow> Explosion list \<Rightarrow> Missile list \<times> Explosion list" where
  "updateMissiles speedScale pm [] exps = ([], exps)"
| "updateMissiles speedScale pm (m # ms) exps =
    (case updateMissile speedScale pm m exps of
       (m', exps') \<Rightarrow>
         (case updateMissiles speedScale pm ms exps' of
            (ms', exps'') \<Rightarrow> (m' # ms', exps'')))"

text \<open>The loop over \<open>missilesRef.current\<close>, which pushes onto \<open>explosionsRef.current\<close>.\<close>

definition missilesPhase :: "real \<Rightarrow> real \<Rightarrow> State \<Rightarrow> State" where
  "missilesPhase speedScale pm s =
    (case updateMissiles speedScale pm (missilesRef s) (explosionsRef s) of
       (ms, exps) \<Rightarrow> s\<lparr>missilesRef := ms, explosionsRef := exps\<rparr>)"

subsection \<open>Update enemies\<close>

text \<open>
  The two functional updates \<open>setCities\<close> and \<open>setBatteries\<close> of an impact at the
  position \<open>p\<close>.
\<close>

definition impactCities :: "Point \<Rightarrow> City list \<Rightarrow> City list" where
  "impactCities p cs =
    map (\<lambda>c. if \<bar>x (c_pos c) - x p\<bar> < 25 \<and> \<bar>y (c_pos c) - y p\<bar> < 25
             then c\<lparr>c_destroyed := True\<rparr> else c) cs"

definition impactBatteries :: "Point \<Rightarrow> Battery list \<Rightarrow> Battery list" where
  "impactBatteries p bs =
    map (\<lambda>b. if \<bar>x (b_pos b) - x p\<bar> < 35 \<and> \<bar>y (b_pos b) - y p\<bar> < 35
             then b\<lparr>b_destroyed := True\<rparr> else b) bs"

text \<open>The first half of the loop body: the enemy moves, or arrives and hits the ground.\<close>

definition moveEnemy :: "real \<Rightarrow> Enemy \<Rightarrow> State \<Rightarrow> Enemy \<times> State" where
  "moveEnemy speedScale e s =
    (let dx = x (target e) - x (pos e);
         dy = y (target e) - y (pos e);
         dist = sqrt (dx * dx + dy * dy);
         moveDist = speed e * speedScale
     in if dist \<le> moveDist \<or> dist = 0 then
          (e\<lparr>active := False\<rparr>,
           s\<lparr>cities := impactCities (pos e) (cities s),
             batteries := impactBatteries (pos e) (batteries s),
             explosionsRef := explosionsRef s @
               [\<lparr>pos = pos e, speed = 0, radius = 2, color = COLORS_ENEMY_MISSILE,
                 active = True, maxRadius = 36, growthRate = 2.4 * speedScale,
                 isShrinking = False\<rparr>]\<rparr>)
        else
          (e\<lparr>pos := \<lparr>x = x (pos e) + (dx / dist) * moveDist,
                     y = y (pos e) + (dy / dist) * moveDist\<rparr>\<rparr>,
           s))"

text \<open>
  The second half: the test of the enemy against one explosion. The updater given to
  \<open>setGameState\<close> reads \<open>scoreRef.current\<close> when React runs it, after the frame;
  writing the score at each hit leaves the same value at the end of the frame.
\<close>

definition hits :: "Enemy \<Rightarrow> Explosion \<Rightarrow> bool" where
  "hits e expl =
    (color expl = COLORS_EXPLOSION \<and> active expl \<and>
     (let edx = x (pos e) - x (pos expl);
          edy = y (pos e) - y (pos expl);
          edist = sqrt (edx * edx + edy * edy)
      in edist < radius expl + 10))"

definition collide :: "Enemy \<times> State \<Rightarrow> Explosion \<Rightarrow> Enemy \<times> State" where
  "collide es expl =
    (case es of (e, s) \<Rightarrow>
       if hits e expl then
         (e\<lparr>active := False\<rparr>,
          s\<lparr>scoreRef := scoreRef s + 20,
            gameState := (gameState s)\<lparr>score := scoreRef s + 20\<rparr>\<rparr>)
       else (e, s))"

definition checkCollisions :: "Enemy \<Rightarrow> State \<Rightarrow> Enemy \<times> State" where
  "checkCollisions e s = foldl collide (e, s) (explosionsRef s)"

definition updateEnemy :: "real \<Rightarrow> Enemy \<Rightarrow> State \<Rightarrow> Enemy \<times> State" where
  "updateEnemy speedScale e s =
    (if \<not> active e then (e, s)
     else (case moveEnemy speedScale e s of (e', s') \<Rightarrow> checkCollisions e' s'))"

fun updateEnemies :: "real \<Rightarrow> Enemy list \<Rightarrow> State \<Rightarrow> Enemy list \<times> State" where
  "updateEnemies speedScale [] s = ([], s)"
| "updateEnemies speedScale (e # es) s =
    (case updateEnemy speedScale e s of
       (e', s') \<Rightarrow>
         (case updateEnemies speedScale es s' of
            (es', s'') \<Rightarrow> (e' # es', s'')))"

text \<open>The loop over \<open>enemiesRef.current\<close>.\<close>

definition enemiesPhase :: "real \<Rightarrow> State \<Rightarrow> State" where
  "enemiesPhase speedScale s =
    (case updateEnemies speedScale (enemiesRef s) s of
       (es, s') \<Rightarrow> s'\<lparr>enemiesRef := es\<rparr>)"

subsection \<open>Update explosions\<close>

definition updateExplosion :: "Explosion \<Rightarrow> Explosion" where
  "updateExplosion expl =
    (if \<not> active expl then expl
     else if \<not> isShrinking expl then
       (let expl1 = expl\<lparr>radius := radius expl + growthRate expl\<rparr>
        in if radius expl1 \<ge> maxRadius expl1 then expl1\<lparr>isShrinking := True\<rparr> else expl1)
     else
       (let expl1 = expl\<lparr>radius := radius expl - growthRate expl * 0.5\<rparr>
        in if radius expl1 \<le> 0 then expl1\<lparr>active := False\<rparr> else expl1))"

definition explosionsPhase :: "State \<Rightarrow> State" where
  "explosionsPhase s = s\<lparr>explosionsRef := map updateExplosion (explosionsRef s)\<rparr>"

subsection \<open>Cleanup, and the check for the end of the game\<close>

definition cleanup :: "State \<Rightarrow> State" where
  "cleanup s =
    s\<lparr>missilesRef := filter active (missilesRef s),
      enemiesRef := filter active (enemiesRef s),
      explosionsRef := filter active (explosionsRef s)\<rparr>"

text \<open>\<open>bs\<close> is the \<open>batteries\<close> of the closure: the list at the start of the frame.\<close>

definition checkGameOver :: "Battery list \<Rightarrow> State \<Rightarrow> State" where
  "checkGameOver bs s =
    (let activeBatteries = length (filter (\<lambda>b. \<not> b_destroyed b) bs) in
     if scoreRef s \<ge> WIN_SCORE then
       s\<lparr>gameState := (gameState s)\<lparr>status := WON\<rparr>\<rparr>
     else if activeBatteries = 0 \<and> length (enemiesRef s) = 0
             \<and> length (explosionsRef s) = 0 then
       s\<lparr>gameState := (gameState s)\<lparr>status := LOST\<rparr>\<rparr>
     else s)"

subsection \<open>The frame\<close>

text \<open>
  \<open>update\<close> takes the timestamp and the frame's random draws. \<open>!lastTimeRef.current\<close>
  holds when the ref is 0, as after \<open>startGame\<close>: the first frame has the delta 0.
  Drawing and sounds change nothing that is modelled. After the check of the status the
  phases run in the order of the source.
\<close>

definition update :: "Draws \<Rightarrow> real \<Rightarrow> State \<Rightarrow> State" where
  "update rnd time s =
    (let deltaTime = time - (if lastTimeRef s = 0 then time else lastTimeRef s);
         s0 = s\<lparr>lastTimeRef := time\<rparr>
     in if status (gameState s) \<noteq> PLAYING then s0
        else
          (let config_powerMult = powerMult (mode (gameState s));
               speedScale = deltaTime / 16.67
           in checkGameOver (batteries s)
                (cleanup
                  (explosionsPhase
                    (enemiesPhase speedScale
                      (missilesPhase speedScale config_powerMult
                        (spawnEnemies rnd deltaTime s0)))))))"

section \<open>Sessions\<close>

text \<open>
  The states the component can be in: it starts in \<open>initialState\<close>, and then a start
  button, a click on the canvas or an animation frame runs its handler. The frame
  scheduler hands \<open>update\<close> timestamps that never decrease.
\<close>

inductive reachable :: "State \<Rightarrow> bool" where
  reachable_init: "reachable initialState"
| reachable_start: "reachable s \<Longrightarrow> reachable (startGame m s)"
| reachable_click: "reachable s \<Longrightarrow> reachable (handleCanvasClick s p)"
| reachable_frame: "reachable s \<Longrightarrow> lastTimeRef s \<le> time \<Longrightarrow> reachable (update rnd time s)"

section \<open>Invariants and relations used in the proofs\<close>

text \<open>
  What holds of every explosion in the list between two frames: it is active, grows at a
  rate that is not negative, its radius is within the bounds, and below \<open>maxRadius\<close>
  while it still grows.
\<close>

definition explosionInv :: "Explosion \<Rightarrow> bool" where
  "explosionInv expl =
    (active expl \<and> 0 \<le> growthRate expl \<and> 0 \<le> radius expl \<and>
     radius expl \<le> maxRadius expl + growthRate expl \<and>
     (isShrinking expl \<or> radius expl < maxRadius expl))"

text \<open>A later version of a city or battery: the same one, and destroyed if it was.\<close>

definition cityLater :: "City \<Rightarrow> City \<Rightarrow> bool" where
  "cityLater c c' =
    (c_id c' = c_id c \<and> c_pos c' = c_pos c \<and> (c_destroyed c \<longrightarrow> c_destroyed c'))"

definition batteryLater :: "Battery \<Rightarrow> Battery \<Rightarrow> bool" where
  "batteryLater b b' =
    (b_id b' = b_id b \<and> b_pos b' = b_pos b \<and> maxMissiles b' = maxMissiles b \<and>
     (b_destroyed b \<longrightarrow> b_destroyed b'))"

text \<open>A battery that a launch can use.\<close>

definition eligible :: "Battery \<Rightarrow> bool" where
  "eligible b = (\<not> b_destroyed b \<and> missiles b > 0)"

section \<open>The spawn interval in the words of the specification\<close>

text \<open>
  The specification gives the interval as \<open>max(500, 2000 - floor(score / 100) * 100)\<close>;
  this definition follows those words, for the comparison with \<open>spawnInterval\<close>.
\<close>

definition spawnIntervalSpec :: "int \<Rightarrow> real" where
  "spawnIntervalSpec sc = max 500 (2000 - real_of_int \<lfloor>real_of_int sc / 100\<rfloor> * 100)"

section \<open>The kinematics in the words of the specification\<close>

text \<open>
  The specification's step of a missile or threat, for the comparison with what a frame
  of \<open>update\<close> does: the distance to the target, the distance moved in a frame of
  \<open>deltaTimeMs\<close> milliseconds, the arrival rule, and the straight step towards the
  target. The two explosions are the ones the specification's arrival handling spawns,
  with the start radius and the colours of the source.
\<close>

definition distanceToTarget :: "Missile \<Rightarrow> real" where
  "distanceToTarget e =
    sqrt ((x (target e) - x (pos e)) * (x (target e) - x (pos e)) +
          (y (target e) - y (pos e)) * (y (target e) - y (pos e)))"

definition moveDistance :: "real \<Rightarrow> Missile \<Rightarrow> real" where
  "moveDistance deltaTimeMs e = speed e * (deltaTimeMs / 16.67)"

definition arrives :: "real \<Rightarrow> Missile \<Rightarrow> bool" where
  "arrives deltaTimeMs e =
    (distanceToTarget e \<le> moveDistance deltaTimeMs e \<or> distanceToTarget e = 0)"

definition advance :: "real \<Rightarrow> Missile \<Rightarrow> Missile" where
  "advance deltaTimeMs e =
    e\<lparr>pos :=
        \<lparr>x = x (pos e) +
               ((x (target e) - x (pos e)) / distanceToTarget e) * moveDistance deltaTimeMs e,
         y = y (pos e) +
               ((y (target e) - y (pos e)) / distanceToTarget e) * moveDistance deltaTimeMs e\<rparr>\<rparr>"

definition playerBlast :: "real \<Rightarrow> real \<Rightarrow> Missile \<Rightarrow> Explosion" where
  "playerBlast deltaTimeMs pm m =
    \<lparr>pos = target m, speed = 0, radius = 2, color = COLORS_EXPLOSION, active = True,
     maxRadius = 96 * pm, growthRate = 3.0 * (deltaTimeMs / 16.67), isShrinking = False\<rparr>"

definition impactBlast :: "real \<Rightarrow> Enemy \<Rightarrow> Explosion" where
  "impactBlast deltaTimeMs e =
    \<lparr>pos = pos e, speed = 0, radius = 2, color = COLORS_ENEMY_MISSILE, active = True,
     maxRadius = 36, growthRate = 2.4 * (deltaTimeMs / 16.67), isShrinking = False\<rparr>"

section \<open>Example inputs\<close>

text \<open>
  Concrete draws, entities and states at which the theorems below are instantiated: a
  session in the mode LOW whose last frame was at the timestamp 1000, an enemy above the
  city \<open>c1\<close> that it targets, and a player's explosion at a given point.
\<close>

definition exampleDraws :: Draws where
  "exampleDraws =
    \<lparr>rTarget = Abs_rand01 0, rPosX = Abs_rand01 (1 / 4), rStartX = Abs_rand01 (1 / 2),
     rSpeed = Abs_rand01 (1 / 2)\<rparr>"

definition examplePlaying :: State where
  "examplePlaying = (startGame LOW initialState)\<lparr>lastTimeRef := 1000\<rparr>"

definition exampleEnemy :: "Point \<Rightarrow> Enemy" where
  "exampleEnemy p =
    \<lparr>pos = p, speed = 1, radius = 2, color = COLORS_ENEMY_MISSILE, active = True,
     target = \<lparr>x = 200, y = 570\<rparr>, startPos = \<lparr>x = 200, y = - 20\<rparr>\<rparr>"

definition examplePlayerExplosion :: "Point \<Rightarrow> Explosion" where
  "examplePlayerExplosion p =
    \<lparr>pos = p, speed = 0, radius = 20, color = COLORS_EXPLOSION, active = True,
     maxRadius = 96, growthRate = 3, isShrinking = False\<rparr>"

text \<open>A missile of the mode LOW from the battery \<open>b1\<close>, at a given point on its way.\<close>

definition exampleMissile :: "Point \<Rightarrow> Point \<Rightarrow> Missile" where
  "exampleMissile p tg =
    \<lparr>pos = p, speed = 5, radius = 2, color = COLORS_PLAYER_MISSILE, active = True,
     target = tg, startPos = \<lparr>x = 100, y = 560\<rparr>\<rparr>"

text \<open>The same session after a click on the battery \<open>b1\<close>, and after the next frame.\<close>

definition exampleLaunched :: State where
  "exampleLaunched = handleCanvasClick examplePlaying \<lparr>x = 100, y = 560\<rparr>"

definition exampleExploded :: State where
  "exampleExploded = update exampleDraws 1016.67 exampleLaunched"

section \<open>Auxiliary facts\<close>

subsection \<open>The collision loop\<close>

lemma hits_inactive [simp]: "hits (e\<lparr>active := a\<rparr>) = hits e"
  by (rule ext) (simp add: hits_def)

lemma foldl_collide_pos: "pos (fst (foldl collide (e, s) exps)) = pos e"
  by (induction exps arbitrary: e s) (simp_all add: collide_def)

lemma foldl_collide_inactive:
  "\<not> active e \<Longrightarrow> \<not> active (fst (foldl collide (e, s) exps))"
  by (induction exps arbitrary: e s) (simp_all add: collide_def)

lemma foldl_collide_score:
  "scoreRef (snd (foldl collide (e, s) exps)) =
     scoreRef s + 20 * int (length (filter (hits e) exps))"
  by (induction exps arbitrary: e s) (simp_all add: collide_def)

lemma foldl_collide_active:
  "active (fst (foldl collide (e, s) exps)) = (active e \<and> filter (hits e) exps = [])"
  by (induction exps arbitrary: e s) (auto simp add: collide_def)

lemma foldl_collide_rest:
  "snd (foldl collide (e, s) exps) =
     s\<lparr>scoreRef := scoreRef s + 20 * int (length (filter (hits e) exps)),
       gameState := (if filter (hits e) exps = [] then gameState s
                     else (gameState s)\<lparr>score := scoreRef s + 20 * int (length (filter (hits e) exps))\<rparr>)\<rparr>"
  by (induction exps arbitrary: e s) (simp_all add: collide_def)

lemma foldl_collide_fst:
  "fst (foldl collide (e, s) exps) =
     (if filter (hits e) exps = [] then e else e\<lparr>active := False\<rparr>)"
  by (induction exps arbitrary: e s) (simp_all add: collide_def)

lemma checkCollisions_eq:
  "checkCollisions e s =
    (if filter (hits e) (explosionsRef s) = [] then (e, s)
     else (e\<lparr>active := False\<rparr>,
           s\<lparr>scoreRef := scoreRef s + 20 * int (length (filter (hits e) (explosionsRef s))),
             gameState := (gameState s)\<lparr>score :=
               scoreRef s + 20 * int (length (filter (hits e) (explosionsRef s)))\<rparr>\<rparr>))"
  by (simp add: checkCollisions_def prod_eq_iff foldl_collide_fst foldl_collide_rest)

lemma updateEnemies_rel:
  assumes refl: "\<And>s. R s s"
    and trans: "\<And>a b c. R a b \<Longrightarrow> R b c \<Longrightarrow> R a c"
    and step: "\<And>e s. R s (snd (updateEnemy speedScale e s))"
  shows "R s (snd (updateEnemies speedScale es s))"
proof (induction es arbitrary: s)
  case Nil
  show ?case by (simp add: refl)
next
  case (Cons e es)
  obtain e' s' where a: "updateEnemy speedScale e s = (e', s')"
    by (cases "updateEnemy speedScale e s")
  obtain es' s'' where b: "updateEnemies speedScale es s' = (es', s'')"
    by (cases "updateEnemies speedScale es s'")
  have "R s s'" using step [of s e] a by simp
  moreover have "R s' s''" using Cons.IH [of s'] b by simp
  ultimately have "R s s''" by (rule trans)
  then show ?case by (simp add: a b)
qed

lemma updateEnemy_unchanged:
  "missilesRef (snd (updateEnemy sc e s)) = missilesRef s \<and>
   enemiesRef (snd (updateEnemy sc e s)) = enemiesRef s \<and>
   lastTimeRef (snd (updateEnemy sc e s)) = lastTimeRef s \<and>
   spawnTimerRef (snd (updateEnemy sc e s)) = spawnTimerRef s \<and>
   status (gameState (snd (updateEnemy sc e s))) = status (gameState s) \<and>
   mode (gameState (snd (updateEnemy sc e s))) = mode (gameState s) \<and>
   level (gameState (snd (updateEnemy sc e s))) = level (gameState s)"
  by (simp add: updateEnemy_def moveEnemy_def checkCollisions_eq Let_def)

lemma updateEnemies_unchanged:
  "missilesRef (snd (updateEnemies sc es s)) = missilesRef s \<and>
   enemiesRef (snd (updateEnemies sc es s)) = enemiesRef s \<and>
   lastTimeRef (snd (updateEnemies sc es s)) = lastTimeRef s \<and>
   spawnTimerRef (snd (updateEnemies sc es s)) = spawnTimerRef s \<and>
   status (gameState (snd (updateEnemies sc es s))) = status (gameState s) \<and>
   mode (gameState (snd (updateEnemies sc es s))) = mode (gameState s) \<and>
   level (gameState (snd (updateEnemies sc es s))) = level (gameState s)"
  by (rule updateEnemies_rel [where R = "\<lambda>s s'. missilesRef s' = missilesRef s \<and>
   enemiesRef s' = enemiesRef s \<and> lastTimeRef s' = lastTimeRef s \<and>
   spawnTimerRef s' = spawnTimerRef s \<and> status (gameState s') = status (gameState s) \<and>
   mode (gameState s') = mode (gameState s) \<and> level (gameState s') = level (gameState s)"])
   (simp_all add: updateEnemy_unchanged)

lemma updateEnemy_score:
  "scoreRef s \<le> scoreRef (snd (updateEnemy sc e s)) \<and>
   20 dvd (scoreRef (snd (updateEnemy sc e s)) - scoreRef s)"
  by (simp add: updateEnemy_def moveEnemy_def checkCollisions_eq Let_def)

lemma updateEnemies_score:
  "scoreRef s \<le> scoreRef (snd (updateEnemies sc es s)) \<and>
   20 dvd (scoreRef (snd (updateEnemies sc es s)) - scoreRef s)"
proof (rule updateEnemies_rel [where R = "\<lambda>s s'. scoreRef s \<le> scoreRef s' \<and>
   20 dvd (scoreRef s' - scoreRef s)"])
  fix a b c :: State
  assume ab: "scoreRef a \<le> scoreRef b \<and> 20 dvd (scoreRef b - scoreRef a)"
    and bc: "scoreRef b \<le> scoreRef c \<and> 20 dvd (scoreRef c - scoreRef b)"
  have "scoreRef c - scoreRef a = (scoreRef c - scoreRef b) + (scoreRef b - scoreRef a)"
    by simp
  then have "20 dvd (scoreRef c - scoreRef a)"
    using ab bc by (simp only: dvd_add)
  then show "scoreRef a \<le> scoreRef c \<and> 20 dvd (scoreRef c - scoreRef a)"
    using ab bc by simp
qed (simp_all add: updateEnemy_score)

subsection \<open>What each phase of the frame changes\<close>

lemma spawnEnemies_fields:
  "gameState (spawnEnemies rnd dt s) = gameState s \<and>
   batteries (spawnEnemies rnd dt s) = batteries s \<and>
   cities (spawnEnemies rnd dt s) = cities s \<and>
   missilesRef (spawnEnemies rnd dt s) = missilesRef s \<and>
   explosionsRef (spawnEnemies rnd dt s) = explosionsRef s \<and>
   lastTimeRef (spawnEnemies rnd dt s) = lastTimeRef s \<and>
   scoreRef (spawnEnemies rnd dt s) = scoreRef s"
  by (simp add: spawnEnemies_def Let_def)

lemma updateMissiles_list_all:
  assumes "\<And>p. P \<lparr>pos = p, speed = 0, radius = 2, color = COLORS_EXPLOSION,
                   active = True, maxRadius = 96 * pm, growthRate = 3.0 * sc,
                   isShrinking = False\<rparr>"
  shows "list_all P exps \<Longrightarrow> list_all P (snd (updateMissiles sc pm ms exps))"
proof (induction ms arbitrary: exps)
  case Nil
  then show ?case by simp
next
  case (Cons m ms)
  have "list_all P (snd (updateMissile sc pm m exps))"
    using Cons.prems assms by (simp add: updateMissile_def Let_def)
  then have "list_all P (snd (updateMissiles sc pm ms (snd (updateMissile sc pm m exps))))"
    by (rule Cons.IH)
  then show ?case by (simp add: case_prod_beta)
qed

lemma missilesPhase_fields:
  "gameState (missilesPhase sc pm s) = gameState s \<and>
   batteries (missilesPhase sc pm s) = batteries s \<and>
   cities (missilesPhase sc pm s) = cities s \<and>
   enemiesRef (missilesPhase sc pm s) = enemiesRef s \<and>
   lastTimeRef (missilesPhase sc pm s) = lastTimeRef s \<and>
   spawnTimerRef (missilesPhase sc pm s) = spawnTimerRef s \<and>
   scoreRef (missilesPhase sc pm s) = scoreRef s"
  by (simp add: missilesPhase_def case_prod_beta)

lemma missilesPhase_explosions:
  "explosionsRef (missilesPhase sc pm s) =
     snd (updateMissiles sc pm (missilesRef s) (explosionsRef s))"
  by (simp add: missilesPhase_def case_prod_beta)

lemma enemiesPhase_fields:
  "gameState (enemiesPhase sc s) = gameState (snd (updateEnemies sc (enemiesRef s) s)) \<and>
   batteries (enemiesPhase sc s) = batteries (snd (updateEnemies sc (enemiesRef s) s)) \<and>
   cities (enemiesPhase sc s) = cities (snd (updateEnemies sc (enemiesRef s) s)) \<and>
   explosionsRef (enemiesPhase sc s) = explosionsRef (snd (updateEnemies sc (enemiesRef s) s)) \<and>
   scoreRef (enemiesPhase sc s) = scoreRef (snd (updateEnemies sc (enemiesRef s) s)) \<and>
   enemiesRef (enemiesPhase sc s) = fst (updateEnemies sc (enemiesRef s) s) \<and>
   missilesRef (enemiesPhase sc s) = missilesRef s \<and>
   lastTimeRef (enemiesPhase sc s) = lastTimeRef s \<and>
   spawnTimerRef (enemiesPhase sc s) = spawnTimerRef s"
  using updateEnemies_unchanged [of sc "enemiesRef s" s]
  by (simp add: enemiesPhase_def case_prod_beta)

lemma explosionsPhase_fields:
  "gameState (explosionsPhase s) = gameState s \<and>
   batteries (explosionsPhase s) = batteries s \<and>
   cities (explosionsPhase s) = cities s \<and>
   missilesRef (explosionsPhase s) = missilesRef s \<and>
   enemiesRef (explosionsPhase s) = enemiesRef s \<and>
   explosionsRef (explosionsPhase s) = map updateExplosion (explosionsRef s) \<and>
   lastTimeRef (explosionsPhase s) = lastTimeRef s \<and>
   spawnTimerRef (explosionsPhase s) = spawnTimerRef s \<and>
   scoreRef (explosionsPhase s) = scoreRef s"
  by (simp add: explosionsPhase_def)

lemma cleanup_fields:
  "gameState (cleanup s) = gameState s \<and>
   batteries (cleanup s) = batteries s \<and>
   cities (cleanup s) = cities s \<and>
   missilesRef (cleanup s) = filter active (missilesRef s) \<and>
   enemiesRef (cleanup s) = filter active (enemiesRef s) \<and>
   explosionsRef (cleanup s) = filter active (explosionsRef s) \<and>
   lastTimeRef (cleanup s) = lastTimeRef s \<and>
   spawnTimerRef (cleanup s) = spawnTimerRef s \<and>
   scoreRef (cleanup s) = scoreRef s"
  by (simp add: cleanup_def)

lemma checkGameOver_fields:
  "batteries (checkGameOver bs s) = batteries s \<and>
   cities (checkGameOver bs s) = cities s \<and>
   missilesRef (checkGameOver bs s) = missilesRef s \<and>
   enemiesRef (checkGameOver bs s) = enemiesRef s \<and>
   explosionsRef (checkGameOver bs s) = explosionsRef s \<and>
   lastTimeRef (checkGameOver bs s) = lastTimeRef s \<and>
   spawnTimerRef (checkGameOver bs s) = spawnTimerRef s \<and>
   scoreRef (checkGameOver bs s) = scoreRef s \<and>
   score (gameState (checkGameOver bs s)) = score (gameState s) \<and>
   mode (gameState (checkGameOver bs s)) = mode (gameState s) \<and>
   level (gameState (checkGameOver bs s)) = level (gameState s)"
  by (simp add: checkGameOver_def Let_def)

lemma checkGameOver_status:
  "status (gameState (checkGameOver bs s)) =
    (if scoreRef s \<ge> WIN_SCORE then WON
     else if list_all b_destroyed bs \<and> enemiesRef s = [] \<and> explosionsRef s = [] then LOST
     else status (gameState s))"
  by (simp add: checkGameOver_def Let_def list_all_iff filter_empty_conv)

subsection \<open>An impact leaves an explosion behind\<close>

lemma updateEnemy_impact_leaves_explosion:
  "set (explosionsRef s) \<subseteq> set (explosionsRef (snd (updateEnemy sc e s))) \<and>
   ((batteries (snd (updateEnemy sc e s)) = batteries s \<and>
     cities (snd (updateEnemy sc e s)) = cities s) \<or>
    (\<exists>expl \<in> set (explosionsRef (snd (updateEnemy sc e s))).
       active expl \<and> \<not> isShrinking expl))"
  by (auto simp add: updateEnemy_def moveEnemy_def checkCollisions_eq Let_def)

lemma updateEnemies_impact_leaves_explosion:
  "set (explosionsRef s) \<subseteq> set (explosionsRef (snd (updateEnemies sc es s))) \<and>
   ((batteries (snd (updateEnemies sc es s)) = batteries s \<and>
     cities (snd (updateEnemies sc es s)) = cities s) \<or>
    (\<exists>expl \<in> set (explosionsRef (snd (updateEnemies sc es s))).
       active expl \<and> \<not> isShrinking expl))"
proof (rule updateEnemies_rel [where R = "\<lambda>s s'.
      set (explosionsRef s) \<subseteq> set (explosionsRef s') \<and>
      ((batteries s' = batteries s \<and> cities s' = cities s) \<or>
       (\<exists>expl \<in> set (explosionsRef s'). active expl \<and> \<not> isShrinking expl))"])
  fix a b c :: State
  assume ab: "set (explosionsRef a) \<subseteq> set (explosionsRef b) \<and>
      ((batteries b = batteries a \<and> cities b = cities a) \<or>
       (\<exists>expl \<in> set (explosionsRef b). active expl \<and> \<not> isShrinking expl))"
    and bc: "set (explosionsRef b) \<subseteq> set (explosionsRef c) \<and>
      ((batteries c = batteries b \<and> cities c = cities b) \<or>
       (\<exists>expl \<in> set (explosionsRef c). active expl \<and> \<not> isShrinking expl))"
  show "set (explosionsRef a) \<subseteq> set (explosionsRef c) \<and>
      ((batteries c = batteries a \<and> cities c = cities a) \<or>
       (\<exists>expl \<in> set (explosionsRef c). active expl \<and> \<not> isShrinking expl))"
    using ab bc by auto
qed (simp_all add: updateEnemy_impact_leaves_explosion)

lemma growing_stays_active:
  "active expl \<Longrightarrow> \<not> isShrinking expl \<Longrightarrow> active (updateExplosion expl)"
  by (simp add: updateExplosion_def Let_def)

lemma update_not_playing:
  "status (gameState s) \<noteq> PLAYING \<Longrightarrow> update rnd time s = s\<lparr>lastTimeRef := time\<rparr>"
  by (simp add: update_def Let_def)

lemma update_playing:
  "status (gameState s) = PLAYING \<Longrightarrow>
   update rnd time s =
     checkGameOver (batteries s)
       (cleanup (explosionsPhase
         (enemiesPhase ((time - (if lastTimeRef s = 0 then time else lastTimeRef s)) / 16.67)
           (missilesPhase ((time - (if lastTimeRef s = 0 then time else lastTimeRef s)) / 16.67)
             (powerMult (mode (gameState s)))
             (spawnEnemies rnd (time - (if lastTimeRef s = 0 then time else lastTimeRef s))
               (s\<lparr>lastTimeRef := time\<rparr>))))))"
  by (simp add: update_def Let_def)

lemma frame_batteries_stale:
  assumes "explosionsRef (cleanup (explosionsPhase (enemiesPhase sc s))) = []"
  shows "batteries (enemiesPhase sc s) = batteries s"
proof (rule ccontr)
  assume neq: "batteries (enemiesPhase sc s) \<noteq> batteries s"
  then obtain expl where e: "expl \<in> set (explosionsRef (enemiesPhase sc s))"
      "active expl" "\<not> isShrinking expl"
    using updateEnemies_impact_leaves_explosion [of s sc "enemiesRef s"]
    by (auto simp add: enemiesPhase_fields)
  then have "updateExplosion expl \<in> set (explosionsRef (cleanup (explosionsPhase (enemiesPhase sc s))))"
    by (simp add: cleanup_fields explosionsPhase_fields growing_stays_active)
  with assms show False by simp
qed

section \<open>Properties of startGame\<close>

lemma startGame_value:
  "startGame m s =
    \<lparr>gameState = \<lparr>score = 0, level = 1, mode = m, status = PLAYING\<rparr>,
     batteries = INITIAL_BATTERIES, cities = INITIAL_CITIES,
     missilesRef = [], enemiesRef = [], explosionsRef = [],
     lastTimeRef = 0, spawnTimerRef = 0, scoreRef = 0\<rparr>"
  by (cases s) (simp add: startGame_def INITIAL_BATTERIES_def INITIAL_CITIES_def)

text \<open>
  C7. Whatever the state before, \<open>startGame m\<close> gives one and the same state: every
  battery holds \<open>maxMissiles\<close> missiles, no battery and no city is destroyed, the score
  is 0, there are no missiles, enemies or explosions, the spawn timer is 0, and the
  status is PLAYING in the mode \<open>m\<close>. Starting twice is starting once.
\<close>

theorem startGame_fresh:
  "startGame m s = startGame m s' \<and>
   startGame m (startGame m s) = startGame m s \<and>
   list_all (\<lambda>b. missiles b = maxMissiles b \<and> \<not> b_destroyed b)
     (batteries (startGame m s)) \<and>
   list_all (\<lambda>c. \<not> c_destroyed c) (cities (startGame m s)) \<and>
   length (batteries (startGame m s)) = 3 \<and> length (cities (startGame m s)) = 4 \<and>
   scoreRef (startGame m s) = 0 \<and> score (gameState (startGame m s)) = 0 \<and>
   missilesRef (startGame m s) = [] \<and> enemiesRef (startGame m s) = [] \<and>
   explosionsRef (startGame m s) = [] \<and> spawnTimerRef (startGame m s) = 0 \<and>
   status (gameState (startGame m s)) = PLAYING \<and> mode (gameState (startGame m s)) = m"
  by (simp add: startGame_value INITIAL_BATTERIES_def INITIAL_CITIES_def)

lemma examplePlaying_value:
  "examplePlaying =
    \<lparr>gameState = \<lparr>score = 0, level = 1, mode = LOW, status = PLAYING\<rparr>,
     batteries = INITIAL_BATTERIES, cities = INITIAL_CITIES,
     missilesRef = [], enemiesRef = [], explosionsRef = [],
     lastTimeRef = 1000, spawnTimerRef = 0, scoreRef = 0\<rparr>"
  by (simp add: examplePlaying_def startGame_value)

section \<open>The end of the game\<close>

lemma spawnEnemies_wait:
  "spawnTimerRef s + dt \<le> spawnInterval (scoreRef s) \<Longrightarrow>
   spawnEnemies rnd dt s = s\<lparr>spawnTimerRef := spawnTimerRef s + dt\<rparr>"
  by (simp add: spawnEnemies_def Let_def)

lemma missilesPhase_Nil: "missilesRef s = [] \<Longrightarrow> missilesPhase sc pm s = s"
  by (simp add: missilesPhase_def)

lemma enemiesPhase_Nil: "enemiesRef s = [] \<Longrightarrow> enemiesPhase sc s = s"
  by (simp add: enemiesPhase_def)

text \<open>
  C4. A frame that starts in the status PLAYING ends in WON exactly when the score is at
  least 1000 after the frame's updates; otherwise it ends in LOST exactly when every
  battery is destroyed and, after the inactive entities are removed, no enemy and no
  explosion is left; otherwise the status stays PLAYING. The win is tested first, and one
  explosion that is still active keeps the game from being lost. What is left of the
  enemies and the explosions after the frame is active.
\<close>

theorem game_over_check:
  assumes "status (gameState s) = PLAYING"
  shows "status (gameState (update rnd time s)) =
     (if scoreRef (update rnd time s) \<ge> WIN_SCORE then WON
      else if list_all b_destroyed (batteries (update rnd time s)) \<and>
              enemiesRef (update rnd time s) = [] \<and>
              explosionsRef (update rnd time s) = [] then LOST
      else PLAYING) \<and>
    WIN_SCORE = 1000 \<and>
    list_all active (enemiesRef (update rnd time s)) \<and>
    list_all active (explosionsRef (update rnd time s))"
proof -
  define dt where "dt = time - (if lastTimeRef s = 0 then time else lastTimeRef s)"
  define s2 where "s2 = missilesPhase (dt / 16.67) (powerMult (mode (gameState s)))
             (spawnEnemies rnd dt (s\<lparr>lastTimeRef := time\<rparr>))"
  define s4 where "s4 = cleanup (explosionsPhase (enemiesPhase (dt / 16.67) s2))"
  have u: "update rnd time s = checkGameOver (batteries s) s4"
    using assms by (simp add: update_playing s4_def s2_def dt_def)
  have b2: "batteries s2 = batteries s"
    by (simp add: s2_def missilesPhase_fields spawnEnemies_fields)
  have st: "status (gameState s4) = PLAYING"
    using assms
    by (simp add: s4_def s2_def cleanup_fields explosionsPhase_fields enemiesPhase_fields
        updateEnemies_unchanged missilesPhase_fields spawnEnemies_fields)
  have stale: "explosionsRef s4 = [] \<Longrightarrow> batteries s4 = batteries s"
    using frame_batteries_stale [of "dt / 16.67" s2] b2
    by (simp add: s4_def cleanup_fields explosionsPhase_fields)
  have act: "list_all active (enemiesRef s4) \<and> list_all active (explosionsRef s4)"
    by (simp add: s4_def cleanup_fields list_all_iff)
  show ?thesis
    using st stale act
    by (auto simp add: u checkGameOver_status checkGameOver_fields WIN_SCORE_def)
qed

lemma all_batteries_destroyed_frame:
  "update exampleDraws 1016.67
     (examplePlaying\<lparr>batteries := map (\<lambda>b. b\<lparr>b_destroyed := True\<rparr>) INITIAL_BATTERIES\<rparr>)
   = examplePlaying\<lparr>batteries := map (\<lambda>b. b\<lparr>b_destroyed := True\<rparr>) INITIAL_BATTERIES,
       lastTimeRef := 1016.67, spawnTimerRef := 16.67,
       gameState := \<lparr>score = 0, level = 1, mode = LOW, status = LOST\<rparr>\<rparr>"
proof -
  have a: "status (gameState (examplePlaying\<lparr>batteries :=
             map (\<lambda>b. b\<lparr>b_destroyed := True\<rparr>) INITIAL_BATTERIES\<rparr>)) = PLAYING"
    by (simp add: examplePlaying_def startGame_value)
  show ?thesis
    unfolding update_playing [OF a]
    by (simp add: examplePlaying_def startGame_value spawnEnemies_wait spawnInterval_def
        missilesPhase_Nil enemiesPhase_Nil explosionsPhase_def cleanup_def checkGameOver_def
        WIN_SCORE_def INITIAL_BATTERIES_def)
qed

lemma explosion_delays_loss_frame:
  "update exampleDraws 1016.67
     (examplePlaying\<lparr>batteries := map (\<lambda>b. b\<lparr>b_destroyed := True\<rparr>) INITIAL_BATTERIES,
        explosionsRef := [examplePlayerExplosion \<lparr>x = 100, y = 100\<rparr>]\<rparr>)
   = examplePlaying\<lparr>batteries := map (\<lambda>b. b\<lparr>b_destroyed := True\<rparr>) INITIAL_BATTERIES,
       explosionsRef := [(examplePlayerExplosion \<lparr>x = 100, y = 100\<rparr>)\<lparr>radius := 23\<rparr>],
       lastTimeRef := 1016.67, spawnTimerRef := 16.67\<rparr>"
proof -
  have a: "status (gameState (examplePlaying\<lparr>batteries :=
             map (\<lambda>b. b\<lparr>b_destroyed := True\<rparr>) INITIAL_BATTERIES,
             explosionsRef := [examplePlayerExplosion \<lparr>x = 100, y = 100\<rparr>]\<rparr>)) = PLAYING"
    by (simp add: examplePlaying_def startGame_value)
  show ?thesis
    unfolding update_playing [OF a]
    by (simp add: examplePlaying_def startGame_value spawnEnemies_wait spawnInterval_def
        missilesPhase_Nil enemiesPhase_Nil explosionsPhase_def cleanup_def checkGameOver_def
        WIN_SCORE_def INITIAL_BATTERIES_def examplePlayerExplosion_def updateExplosion_def)
qed

theorem game_over_check_witness:
  "status (gameState (examplePlaying\<lparr>batteries :=
      map (\<lambda>b. b\<lparr>b_destroyed := True\<rparr>) INITIAL_BATTERIES\<rparr>)) = PLAYING \<and>
   status (gameState (update exampleDraws 1016.67
     (examplePlaying\<lparr>batteries :=
        map (\<lambda>b. b\<lparr>b_destroyed := True\<rparr>) INITIAL_BATTERIES\<rparr>))) = LOST \<and>
   status (gameState (examplePlaying\<lparr>batteries :=
      map (\<lambda>b. b\<lparr>b_destroyed := True\<rparr>) INITIAL_BATTERIES,
      explosionsRef := [examplePlayerExplosion \<lparr>x = 100, y = 100\<rparr>]\<rparr>)) = PLAYING \<and>
   status (gameState (update exampleDraws 1016.67
     (examplePlaying\<lparr>batteries :=
        map (\<lambda>b. b\<lparr>b_destroyed := True\<rparr>) INITIAL_BATTERIES,
        explosionsRef := [examplePlayerExplosion \<lparr>x = 100, y = 100\<rparr>]\<rparr>))) = PLAYING"
proof -
  have a: "status (gameState (examplePlaying\<lparr>batteries :=
      map (\<lambda>b. b\<lparr>b_destroyed := True\<rparr>) INITIAL_BATTERIES\<rparr>)) = PLAYING"
    by (simp add: examplePlaying_def startGame_value)
  have b: "status (gameState (examplePlaying\<lparr>batteries :=
      map (\<lambda>b. b\<lparr>b_destroyed := True\<rparr>) INITIAL_BATTERIES,
      explosionsRef := [examplePlayerExplosion \<lparr>x = 100, y = 100\<rparr>]\<rparr>)) = PLAYING"
    by (simp add: examplePlaying_def startGame_value)
  have "status (gameState (update exampleDraws 1016.67
     (examplePlaying\<lparr>batteries :=
        map (\<lambda>b. b\<lparr>b_destroyed := True\<rparr>) INITIAL_BATTERIES\<rparr>))) = LOST"
    using game_over_check [OF a, of exampleDraws "1016.67"]
    unfolding all_batteries_destroyed_frame
    by (simp add: WIN_SCORE_def examplePlaying_def startGame_value INITIAL_BATTERIES_def)
  moreover have "status (gameState (update exampleDraws 1016.67
     (examplePlaying\<lparr>batteries :=
        map (\<lambda>b. b\<lparr>b_destroyed := True\<rparr>) INITIAL_BATTERIES,
        explosionsRef := [examplePlayerExplosion \<lparr>x = 100, y = 100\<rparr>]\<rparr>))) = PLAYING"
    using game_over_check [OF b, of exampleDraws "1016.67"]
    unfolding explosion_delays_loss_frame
    by (simp add: WIN_SCORE_def examplePlaying_def startGame_value INITIAL_BATTERIES_def)
  ultimately show ?thesis using a b by simp
qed

section \<open>Kinematics\<close>

lemma sqrt_25: "sqrt 25 = 5"
  by (rule real_sqrt_unique) simp_all

lemma checkCollisions_pos: "pos (fst (checkCollisions e s)) = pos e"
  by (simp add: checkCollisions_eq)

lemma checkCollisions_inactive:
  "\<not> active e \<Longrightarrow> \<not> active (fst (checkCollisions e s))"
  by (simp add: checkCollisions_eq)

lemma kinematics_entity_step:
  assumes "active m"
  shows
  "(let dx = x (target m) - x (pos m);
        dy = y (target m) - y (pos m);
        dist = sqrt (dx * dx + dy * dy);
        moveDist = speed m * (deltaTime / 16.67)
    in (if dist \<le> moveDist \<or> dist = 0 then
          \<not> active (fst (updateMissile (deltaTime / 16.67) pm m exps)) \<and>
          pos (fst (updateMissile (deltaTime / 16.67) pm m exps)) = pos m \<and>
          \<not> active (fst (updateEnemy (deltaTime / 16.67) m s)) \<and>
          pos (fst (updateEnemy (deltaTime / 16.67) m s)) = pos m
        else
          active (fst (updateMissile (deltaTime / 16.67) pm m exps)) \<and>
          pos (fst (updateMissile (deltaTime / 16.67) pm m exps)) =
            \<lparr>x = x (pos m) + (dx / dist) * moveDist,
             y = y (pos m) + (dy / dist) * moveDist\<rparr> \<and>
          pos (fst (updateEnemy (deltaTime / 16.67) m s)) =
            \<lparr>x = x (pos m) + (dx / dist) * moveDist,
             y = y (pos m) + (dy / dist) * moveDist\<rparr>) \<and>
       (pos m = target m \<longrightarrow>
          \<not> active (fst (updateMissile (deltaTime / 16.67) pm m exps)) \<and>
          \<not> active (fst (updateEnemy (deltaTime / 16.67) m s))))"
  using assms
  by (simp add: Let_def updateMissile_def updateEnemy_def moveEnemy_def
      checkCollisions_pos checkCollisions_inactive)

subsection \<open>The frame against the specification's step\<close>

lemma updateMissile_spec:
  assumes "sc = dt / 16.67"
  shows "updateMissile sc pm m exps =
    (if \<not> active m then (m, exps)
     else if arrives dt m then (m\<lparr>active := False\<rparr>, exps @ [playerBlast dt pm m])
     else (advance dt m, exps))"
  unfolding assms
  by (simp add: updateMissile_def arrives_def advance_def moveDistance_def
      distanceToTarget_def playerBlast_def Let_def)

lemma moveEnemy_spec:
  assumes "sc = dt / 16.67"
  shows "moveEnemy sc e s =
    (if arrives dt e then
       (e\<lparr>active := False\<rparr>,
        s\<lparr>cities := impactCities (pos e) (cities s),
          batteries := impactBatteries (pos e) (batteries s),
          explosionsRef := explosionsRef s @ [impactBlast dt e]\<rparr>)
     else (advance dt e, s))"
  unfolding assms
  by (simp add: moveEnemy_def arrives_def advance_def moveDistance_def
      distanceToTarget_def impactBlast_def Let_def)

lemma advance_active: "active (advance dt m) = active m"
  by (simp add: advance_def)

lemma updateMissiles_spec:
  assumes "sc = dt / 16.67"
  shows "updateMissiles sc pm ms exps =
    (map (\<lambda>m. if \<not> active m then m
               else if arrives dt m then m\<lparr>active := False\<rparr> else advance dt m) ms,
     exps @ map (playerBlast dt pm) (filter (\<lambda>m. active m \<and> arrives dt m) ms))"
  by (induction ms arbitrary: exps) (simp_all add: updateMissile_spec [OF assms])

lemma survivors_of_step:
  "filter active
     (map (\<lambda>m. if \<not> active m then m
               else if arrives dt m then m\<lparr>active := False\<rparr> else advance dt m) ms) =
   map (advance dt) (filter (\<lambda>m. active m \<and> \<not> arrives dt m) ms)"
  by (induction ms) (simp_all add: advance_active)

lemma hits_needs_player_colour:
  "color expl \<noteq> COLORS_EXPLOSION \<Longrightarrow> \<not> hits e expl"
  by (simp add: hits_def)

lemma filter_hits_append:
  "list_all (\<lambda>b. color b \<noteq> COLORS_EXPLOSION) T \<Longrightarrow>
   filter (hits e) (E0 @ T) = filter (hits e) E0"
  by (induction T) (simp_all add: hits_needs_player_colour)

lemma impactBlast_colour: "color (impactBlast dt e) \<noteq> COLORS_EXPLOSION"
  by (simp add: impactBlast_def COLORS_ENEMY_MISSILE_def COLORS_EXPLOSION_def)

lemma impactBlast_never_hits: "hits e' (impactBlast dt e) = False"
  by (simp add: hits_def impactBlast_def COLORS_ENEMY_MISSILE_def COLORS_EXPLOSION_def)

lemma updateEnemy_spec:
  assumes sc: "sc = dt / 16.67"
    and ex: "explosionsRef s = E0 @ T"
    and th: "list_all (\<lambda>b. color b \<noteq> COLORS_EXPLOSION) T"
  shows "updateEnemy sc e s =
    (if \<not> active e then (e, s)
     else if arrives dt e then
       (e\<lparr>active := False\<rparr>,
        (if list_ex (hits e) E0 then
           s\<lparr>scoreRef := scoreRef s + 20 * int (length (filter (hits e) E0)),
             gameState := (gameState s)\<lparr>score :=
               scoreRef s + 20 * int (length (filter (hits e) E0))\<rparr>\<rparr>
         else s)
        \<lparr>cities := impactCities (pos e) (cities s),
         batteries := impactBatteries (pos e) (batteries s),
         explosionsRef := explosionsRef s @ [impactBlast dt e]\<rparr>)
     else if list_ex (hits (advance dt e)) E0 then
       ((advance dt e)\<lparr>active := False\<rparr>,
        s\<lparr>scoreRef := scoreRef s + 20 * int (length (filter (hits (advance dt e)) E0)),
          gameState := (gameState s)\<lparr>score :=
            scoreRef s + 20 * int (length (filter (hits (advance dt e)) E0))\<rparr>\<rparr>)
     else (advance dt e, s))"
proof -
  have f: "filter (hits e') (explosionsRef s) = filter (hits e') E0" for e'
    unfolding ex by (rule filter_hits_append [OF th])
  have h: "(filter (hits e') E0 = []) = (\<not> list_ex (hits e') E0)" for e'
    by (simp add: filter_empty_conv list_ex_iff)
  show ?thesis
    by (simp add: updateEnemy_def moveEnemy_spec [OF sc] checkCollisions_eq f h
        impactBlast_never_hits)
qed


lemma updateEnemies_Cons:
  "updateEnemies sc (e # es) s =
     (fst (updateEnemy sc e s) # fst (updateEnemies sc es (snd (updateEnemy sc e s))),
      snd (updateEnemies sc es (snd (updateEnemy sc e s))))"
  by (simp add: case_prod_beta)

lemma updateEnemies_spec:
  assumes sc: "sc = dt / 16.67"
  shows "explosionsRef s = E0 @ T \<Longrightarrow> list_all (\<lambda>b. color b \<noteq> COLORS_EXPLOSION) T \<Longrightarrow>
    filter active (fst (updateEnemies sc es s)) =
      filter (\<lambda>e. \<not> list_ex (hits e) E0)
        (map (advance dt) (filter (\<lambda>e. active e \<and> \<not> arrives dt e) es)) \<and>
    cities (snd (updateEnemies sc es s)) =
      foldl (\<lambda>cs e. impactCities (pos e) cs) (cities s)
        (filter (\<lambda>e. active e \<and> arrives dt e) es) \<and>
    batteries (snd (updateEnemies sc es s)) =
      foldl (\<lambda>bs e. impactBatteries (pos e) bs) (batteries s)
        (filter (\<lambda>e. active e \<and> arrives dt e) es) \<and>
    explosionsRef (snd (updateEnemies sc es s)) =
      explosionsRef s @ map (impactBlast dt) (filter (\<lambda>e. active e \<and> arrives dt e) es)"
proof (induction es arbitrary: s T)
  case Nil
  show ?case by simp
next
  case (Cons e es)
  define r where "r = updateEnemy sc e s"
  note spec = updateEnemy_spec [OF sc Cons.prems(1) Cons.prems(2), of e]
  have r_expl: "explosionsRef (snd r) =
      E0 @ (if active e \<and> arrives dt e then T @ [impactBlast dt e] else T)"
    by (simp add: r_def spec Cons.prems(1))
  have r_expl': "explosionsRef (snd r) =
      explosionsRef s @ (if active e \<and> arrives dt e then [impactBlast dt e] else [])"
    by (simp add: r_def spec)
  have r_th: "list_all (\<lambda>b. color b \<noteq> COLORS_EXPLOSION)
      (if active e \<and> arrives dt e then T @ [impactBlast dt e] else T)"
    using Cons.prems(2) by (simp add: impactBlast_colour)
  have r_cities: "cities (snd r) =
      (if active e \<and> arrives dt e then impactCities (pos e) (cities s) else cities s)"
    by (simp add: r_def spec)
  have r_batteries: "batteries (snd r) =
      (if active e \<and> arrives dt e then impactBatteries (pos e) (batteries s)
       else batteries s)"
    by (simp add: r_def spec)
  have r_act: "active (fst r) =
      (active e \<and> \<not> arrives dt e \<and> \<not> list_ex (hits (advance dt e)) E0)"
    by (simp add: r_def spec advance_active)
  have r_val: "active (fst r) \<Longrightarrow> fst r = advance dt e"
    by (simp add: r_def spec split: if_splits)
  note ih = Cons.IH [OF r_expl r_th]
  have u: "updateEnemies sc (e # es) s =
     (fst r # fst (updateEnemies sc es (snd r)), snd (updateEnemies sc es (snd r)))"
    unfolding r_def by (rule updateEnemies_Cons)
  show ?case
    unfolding u using ih r_val
    by (auto simp add: r_cities r_batteries r_expl' r_act)
qed


lemma missilesPhase_missiles:
  "missilesRef (missilesPhase sc pm s) =
     fst (updateMissiles sc pm (missilesRef s) (explosionsRef s))"
  by (simp add: missilesPhase_def case_prod_beta)

lemma update_frame_spec:
  assumes playing: "status (gameState s) = PLAYING"
    and dt: "dt = time - (if lastTimeRef s = 0 then time else lastTimeRef s)"
    and s1: "s1 = spawnEnemies rnd dt (s\<lparr>lastTimeRef := time\<rparr>)"
    and blasts: "blasts = explosionsRef s @
        map (playerBlast dt (powerMult (mode (gameState s))))
          (filter (\<lambda>m. active m \<and> arrives dt m) (missilesRef s))"
    and arrivals: "arrivals = filter (\<lambda>e. active e \<and> arrives dt e) (enemiesRef s1)"
  shows "missilesRef (update rnd time s) =
      map (advance dt) (filter (\<lambda>m. active m \<and> \<not> arrives dt m) (missilesRef s))"
    and "enemiesRef (update rnd time s) =
      filter (\<lambda>e. \<not> list_ex (hits e) blasts)
        (map (advance dt) (filter (\<lambda>e. active e \<and> \<not> arrives dt e) (enemiesRef s1)))"
    and "cities (update rnd time s) =
      foldl (\<lambda>cs e. impactCities (pos e) cs) (cities s) arrivals"
    and "batteries (update rnd time s) =
      foldl (\<lambda>bs e. impactBatteries (pos e) bs) (batteries s) arrivals"
    and "explosionsRef (update rnd time s) =
      filter active (map updateExplosion (blasts @ map (impactBlast dt) arrivals))"
proof -
  define sc where "sc = dt / 16.67"
  define s2 where "s2 = missilesPhase sc (powerMult (mode (gameState s))) s1"
  define s3 where "s3 = enemiesPhase sc s2"
  have u: "update rnd time s = checkGameOver (batteries s) (cleanup (explosionsPhase s3))"
    using playing by (simp add: update_playing s3_def s2_def s1 sc_def dt)
  have f1: "missilesRef s1 = missilesRef s" "explosionsRef s1 = explosionsRef s"
    "cities s1 = cities s" "batteries s1 = batteries s"
    by (simp_all add: s1 spawnEnemies_fields)
  have m: "updateMissiles sc (powerMult (mode (gameState s))) (missilesRef s) (explosionsRef s) =
      (map (\<lambda>m. if \<not> active m then m
                 else if arrives dt m then m\<lparr>active := False\<rparr> else advance dt m)
         (missilesRef s), blasts)"
    unfolding blasts by (rule updateMissiles_spec [OF sc_def])
  have f2: "missilesRef s2 =
      map (\<lambda>m. if \<not> active m then m
                 else if arrives dt m then m\<lparr>active := False\<rparr> else advance dt m)
        (missilesRef s)"
    "explosionsRef s2 = blasts @ []" "enemiesRef s2 = enemiesRef s1"
    "cities s2 = cities s" "batteries s2 = batteries s"
    by (simp_all add: s2_def missilesPhase_missiles missilesPhase_explosions
        missilesPhase_fields f1 m)
  note e = updateEnemies_spec [OF sc_def f2(2), of "enemiesRef s2", simplified]
  have f3: "missilesRef s3 = missilesRef s2"
    "enemiesRef s3 = fst (updateEnemies sc (enemiesRef s2) s2)"
    "cities s3 = cities (snd (updateEnemies sc (enemiesRef s2) s2))"
    "batteries s3 = batteries (snd (updateEnemies sc (enemiesRef s2) s2))"
    "explosionsRef s3 = explosionsRef (snd (updateEnemies sc (enemiesRef s2) s2))"
    by (simp_all add: s3_def enemiesPhase_fields)
  show "missilesRef (update rnd time s) =
      map (advance dt) (filter (\<lambda>m. active m \<and> \<not> arrives dt m) (missilesRef s))"
    by (simp add: u checkGameOver_fields cleanup_fields explosionsPhase_fields f3 f2(1)
        survivors_of_step)
  show "enemiesRef (update rnd time s) =
      filter (\<lambda>e. \<not> list_ex (hits e) blasts)
        (map (advance dt) (filter (\<lambda>e. active e \<and> \<not> arrives dt e) (enemiesRef s1)))"
    using e by (simp add: u checkGameOver_fields cleanup_fields explosionsPhase_fields f3 f2(3))
  show "cities (update rnd time s) =
      foldl (\<lambda>cs e. impactCities (pos e) cs) (cities s) arrivals"
    using e
    by (simp add: u checkGameOver_fields cleanup_fields explosionsPhase_fields f3 f2 arrivals)
  show "batteries (update rnd time s) =
      foldl (\<lambda>bs e. impactBatteries (pos e) bs) (batteries s) arrivals"
    using e
    by (simp add: u checkGameOver_fields cleanup_fields explosionsPhase_fields f3 f2 arrivals)
  show "explosionsRef (update rnd time s) =
      filter active (map updateExplosion (blasts @ map (impactBlast dt) arrivals))"
    using e
    by (simp add: u checkGameOver_fields cleanup_fields explosionsPhase_fields f3 f2 arrivals)
qed

lemma foldl_impactCities:
  "foldl (\<lambda>cs e. impactCities (pos e) cs) cs es =
   map (\<lambda>c. c\<lparr>c_destroyed := c_destroyed c \<or>
      list_ex (\<lambda>e. \<bar>x (c_pos c) - x (pos e)\<bar> < 25 \<and> \<bar>y (c_pos c) - y (pos e)\<bar> < 25) es\<rparr>) cs"
proof (induction es arbitrary: cs)
  case Nil
  show ?case by (simp add: map_idI)
next
  case (Cons e es)
  show ?case
    unfolding foldl_Cons Cons.IH
    by (auto simp add: impactCities_def)
qed

lemma foldl_impactBatteries:
  "foldl (\<lambda>bs e. impactBatteries (pos e) bs) bs es =
   map (\<lambda>b. b\<lparr>b_destroyed := b_destroyed b \<or>
      list_ex (\<lambda>e. \<bar>x (b_pos b) - x (pos e)\<bar> < 35 \<and> \<bar>y (b_pos b) - y (pos e)\<bar> < 35) es\<rparr>) bs"
proof (induction es arbitrary: bs)
  case Nil
  show ?case by (simp add: map_idI)
next
  case (Cons e es)
  show ?case
    unfolding foldl_Cons Cons.IH
    by (auto simp add: impactBatteries_def)
qed

lemma sqrt_220900: "sqrt 220900 = 470"
  by (rule real_sqrt_unique) simp_all

text \<open>
  C3. A frame of \<open>update\<close> in the status PLAYING, with \<open>deltaTime\<close> the time since
  the last frame, \<open>moveDistance = speed * (deltaTime / 16.67)\<close> and \<open>distanceToTarget\<close>
  the distance from \<open>pos\<close> to \<open>target\<close>: the missiles left after the frame are
  exactly the active missiles that do not arrive (\<open>distanceToTarget \<le> moveDistance\<close> or
  \<open>distanceToTarget = 0\<close>), each advanced by \<open>(direction / distance) * moveDistance\<close>;
  the enemies left are the active enemies (the one spawned in this frame included) that
  do not arrive, advanced the same way, except those a player's explosion hits; every
  missile that arrives leaves the player's explosion at its target and every enemy that
  arrives leaves the enemy's explosion at its position. In the step of one entity, an
  arrival sets \<open>active\<close> to false and leaves the position as it is, the collision test
  never moves an enemy, and an entity whose position is its target arrives.
\<close>

theorem kinematics_step:
  assumes "status (gameState s) = PLAYING"
  shows
  "(let deltaTime = time - (if lastTimeRef s = 0 then time else lastTimeRef s);
        s1 = spawnEnemies rnd deltaTime (s\<lparr>lastTimeRef := time\<rparr>);
        blasts = explosionsRef s @
          map (playerBlast deltaTime (powerMult (mode (gameState s))))
            (filter (\<lambda>m. active m \<and> arrives deltaTime m) (missilesRef s))
    in missilesRef (update rnd time s) =
         map (advance deltaTime)
           (filter (\<lambda>m. active m \<and> \<not> arrives deltaTime m) (missilesRef s)) \<and>
       enemiesRef (update rnd time s) =
         filter (\<lambda>e. \<not> list_ex (hits e) blasts)
           (map (advance deltaTime)
             (filter (\<lambda>e. active e \<and> \<not> arrives deltaTime e) (enemiesRef s1))) \<and>
       explosionsRef (update rnd time s) =
         filter active (map updateExplosion
           (blasts @ map (impactBlast deltaTime)
              (filter (\<lambda>e. active e \<and> arrives deltaTime e) (enemiesRef s1))))) \<and>
   updateMissile (dt / 16.67) pm m exps =
     (if \<not> active m then (m, exps)
      else if arrives dt m then (m\<lparr>active := False\<rparr>, exps @ [playerBlast dt pm m])
      else (advance dt m, exps)) \<and>
   moveEnemy (dt / 16.67) m s' =
     (if arrives dt m then
        (m\<lparr>active := False\<rparr>,
         s'\<lparr>cities := impactCities (pos m) (cities s'),
            batteries := impactBatteries (pos m) (batteries s'),
            explosionsRef := explosionsRef s' @ [impactBlast dt m]\<rparr>)
      else (advance dt m, s')) \<and>
   updateEnemy (dt / 16.67) m s' =
     (if \<not> active m then (m, s')
      else checkCollisions (fst (moveEnemy (dt / 16.67) m s'))
             (snd (moveEnemy (dt / 16.67) m s'))) \<and>
   pos (fst (checkCollisions m s')) = pos m \<and>
   (pos m = target m \<longrightarrow> arrives dt m)"
proof -
  have frame: "let deltaTime = time - (if lastTimeRef s = 0 then time else lastTimeRef s);
        s1 = spawnEnemies rnd deltaTime (s\<lparr>lastTimeRef := time\<rparr>);
        blasts = explosionsRef s @
          map (playerBlast deltaTime (powerMult (mode (gameState s))))
            (filter (\<lambda>m. active m \<and> arrives deltaTime m) (missilesRef s))
    in missilesRef (update rnd time s) =
         map (advance deltaTime)
           (filter (\<lambda>m. active m \<and> \<not> arrives deltaTime m) (missilesRef s)) \<and>
       enemiesRef (update rnd time s) =
         filter (\<lambda>e. \<not> list_ex (hits e) blasts)
           (map (advance deltaTime)
             (filter (\<lambda>e. active e \<and> \<not> arrives deltaTime e) (enemiesRef s1))) \<and>
       explosionsRef (update rnd time s) =
         filter active (map updateExplosion
           (blasts @ map (impactBlast deltaTime)
              (filter (\<lambda>e. active e \<and> arrives deltaTime e) (enemiesRef s1))))"
    unfolding Let_def
    by (intro conjI update_frame_spec(1,2,5) [OF assms refl refl refl refl])
  have a: "updateMissile (dt / 16.67) pm m exps =
     (if \<not> active m then (m, exps)
      else if arrives dt m then (m\<lparr>active := False\<rparr>, exps @ [playerBlast dt pm m])
      else (advance dt m, exps))"
    by (rule updateMissile_spec [OF refl])
  have b: "moveEnemy (dt / 16.67) m s' =
     (if arrives dt m then
        (m\<lparr>active := False\<rparr>,
         s'\<lparr>cities := impactCities (pos m) (cities s'),
            batteries := impactBatteries (pos m) (batteries s'),
            explosionsRef := explosionsRef s' @ [impactBlast dt m]\<rparr>)
      else (advance dt m, s'))"
    by (rule moveEnemy_spec [OF refl])
  have c: "updateEnemy (dt / 16.67) m s' =
     (if \<not> active m then (m, s')
      else checkCollisions (fst (moveEnemy (dt / 16.67) m s'))
             (snd (moveEnemy (dt / 16.67) m s')))"
    by (simp add: updateEnemy_def case_prod_beta)
  have d: "pos (fst (checkCollisions m s')) = pos m"
    by (rule checkCollisions_pos)
  have e: "pos m = target m \<longrightarrow> arrives dt m"
    by (simp add: arrives_def distanceToTarget_def)
  from frame a b c d e show ?thesis by (intro conjI)
qed

lemma sqrt_100: "sqrt 100 = 10"
  by (rule real_sqrt_unique) simp_all

theorem kinematics_step_witness:
  "status (gameState (examplePlaying\<lparr>missilesRef :=
      [exampleMissile \<lparr>x = 100, y = 560\<rparr> \<lparr>x = 106, y = 568\<rparr>,
       exampleMissile \<lparr>x = 400, y = 300\<rparr> \<lparr>x = 400, y = 300\<rparr>]\<rparr>)) = PLAYING \<and>
   missilesRef (update exampleDraws 1016.67 (examplePlaying\<lparr>missilesRef :=
      [exampleMissile \<lparr>x = 100, y = 560\<rparr> \<lparr>x = 106, y = 568\<rparr>,
       exampleMissile \<lparr>x = 400, y = 300\<rparr> \<lparr>x = 400, y = 300\<rparr>]\<rparr>)) =
     [exampleMissile \<lparr>x = 103, y = 564\<rparr> \<lparr>x = 106, y = 568\<rparr>] \<and>
   explosionsRef (update exampleDraws 1016.67 (examplePlaying\<lparr>missilesRef :=
      [exampleMissile \<lparr>x = 100, y = 560\<rparr> \<lparr>x = 106, y = 568\<rparr>,
       exampleMissile \<lparr>x = 400, y = 300\<rparr> \<lparr>x = 400, y = 300\<rparr>]\<rparr>)) =
     [\<lparr>pos = \<lparr>x = 400, y = 300\<rparr>, speed = 0, radius = 5, color = COLORS_EXPLOSION,
       active = True, maxRadius = 96, growthRate = 3, isShrinking = False\<rparr>] \<and>
   status (gameState (examplePlaying\<lparr>enemiesRef :=
      [exampleEnemy \<lparr>x = 200, y = 100\<rparr>, exampleEnemy \<lparr>x = 200, y = 569\<rparr>]\<rparr>)) = PLAYING \<and>
   enemiesRef (update exampleDraws 1016.67 (examplePlaying\<lparr>enemiesRef :=
      [exampleEnemy \<lparr>x = 200, y = 100\<rparr>, exampleEnemy \<lparr>x = 200, y = 569\<rparr>]\<rparr>)) =
     [exampleEnemy \<lparr>x = 200, y = 101\<rparr>] \<and>
   arrives 16.67 (exampleMissile \<lparr>x = 400, y = 300\<rparr> \<lparr>x = 400, y = 300\<rparr>) \<and>
   updateMissile (16.67 / 16.67) 1
     (exampleMissile \<lparr>x = 400, y = 300\<rparr> \<lparr>x = 400, y = 300\<rparr>) [] =
     ((exampleMissile \<lparr>x = 400, y = 300\<rparr> \<lparr>x = 400, y = 300\<rparr>)\<lparr>active := False\<rparr>,
      [playerBlast 16.67 1 (exampleMissile \<lparr>x = 400, y = 300\<rparr> \<lparr>x = 400, y = 300\<rparr>)])"
proof -
  have pa: "status (gameState (examplePlaying\<lparr>missilesRef :=
      [exampleMissile \<lparr>x = 100, y = 560\<rparr> \<lparr>x = 106, y = 568\<rparr>,
       exampleMissile \<lparr>x = 400, y = 300\<rparr> \<lparr>x = 400, y = 300\<rparr>]\<rparr>)) = PLAYING"
    by (simp add: examplePlaying_value)
  have pb: "status (gameState (examplePlaying\<lparr>enemiesRef :=
      [exampleEnemy \<lparr>x = 200, y = 100\<rparr>, exampleEnemy \<lparr>x = 200, y = 569\<rparr>]\<rparr>)) = PLAYING"
    by (simp add: examplePlaying_value)
  note ka = kinematics_step [OF pa, where rnd = exampleDraws and time = "1016.67"
      and dt = "16.67" and pm = 1
      and m = "exampleMissile \<lparr>x = 400, y = 300\<rparr> \<lparr>x = 400, y = 300\<rparr>"
      and exps = "[]" and s' = examplePlaying]
  note kb = kinematics_step [OF pb, where rnd = exampleDraws and time = "1016.67"
      and dt = "16.67" and pm = 1
      and m = "exampleMissile \<lparr>x = 400, y = 300\<rparr> \<lparr>x = 400, y = 300\<rparr>"
      and exps = "[]" and s' = examplePlaying]
  note fa = ka [THEN conjunct1, unfolded Let_def]
  note fb = kb [THEN conjunct1, unfolded Let_def]
  have m: "missilesRef (update exampleDraws 1016.67 (examplePlaying\<lparr>missilesRef :=
      [exampleMissile \<lparr>x = 100, y = 560\<rparr> \<lparr>x = 106, y = 568\<rparr>,
       exampleMissile \<lparr>x = 400, y = 300\<rparr> \<lparr>x = 400, y = 300\<rparr>]\<rparr>)) =
     [exampleMissile \<lparr>x = 103, y = 564\<rparr> \<lparr>x = 106, y = 568\<rparr>]"
    unfolding fa [THEN conjunct1]
    by (simp add: examplePlaying_value exampleMissile_def arrives_def advance_def
        moveDistance_def distanceToTarget_def sqrt_100)
  have x: "explosionsRef (update exampleDraws 1016.67 (examplePlaying\<lparr>missilesRef :=
      [exampleMissile \<lparr>x = 100, y = 560\<rparr> \<lparr>x = 106, y = 568\<rparr>,
       exampleMissile \<lparr>x = 400, y = 300\<rparr> \<lparr>x = 400, y = 300\<rparr>]\<rparr>)) =
     [\<lparr>pos = \<lparr>x = 400, y = 300\<rparr>, speed = 0, radius = 5, color = COLORS_EXPLOSION,
       active = True, maxRadius = 96, growthRate = 3, isShrinking = False\<rparr>]"
    unfolding fa [THEN conjunct2, THEN conjunct2]
    by (simp add: examplePlaying_value exampleMissile_def arrives_def advance_def
        moveDistance_def distanceToTarget_def sqrt_100 playerBlast_def updateExplosion_def
        spawnEnemies_def spawnInterval_def Let_def)
  have e: "enemiesRef (update exampleDraws 1016.67 (examplePlaying\<lparr>enemiesRef :=
      [exampleEnemy \<lparr>x = 200, y = 100\<rparr>, exampleEnemy \<lparr>x = 200, y = 569\<rparr>]\<rparr>)) =
     [exampleEnemy \<lparr>x = 200, y = 101\<rparr>]"
    unfolding fb [THEN conjunct2, THEN conjunct1]
    by (simp add: examplePlaying_value exampleEnemy_def arrives_def advance_def
        moveDistance_def distanceToTarget_def sqrt_220900
        spawnEnemies_def spawnInterval_def Let_def)
  have a: "arrives 16.67 (exampleMissile \<lparr>x = 400, y = 300\<rparr> \<lparr>x = 400, y = 300\<rparr>)"
    using ka [THEN conjunct2, THEN conjunct2, THEN conjunct2, THEN conjunct2, THEN conjunct2]
    by (simp add: exampleMissile_def)
  have u: "updateMissile (16.67 / 16.67) 1
     (exampleMissile \<lparr>x = 400, y = 300\<rparr> \<lparr>x = 400, y = 300\<rparr>) [] =
     ((exampleMissile \<lparr>x = 400, y = 300\<rparr> \<lparr>x = 400, y = 300\<rparr>)\<lparr>active := False\<rparr>,
      [playerBlast 16.67 1 (exampleMissile \<lparr>x = 400, y = 300\<rparr> \<lparr>x = 400, y = 300\<rparr>)])"
    unfolding ka [THEN conjunct2, THEN conjunct1] using a by (simp add: exampleMissile_def)
  from pa m x pb e a u show ?thesis by (intro conjI)
qed

section \<open>The life of an explosion\<close>

lemma updateExplosion_inv:
  "explosionInv expl \<Longrightarrow> active (updateExplosion expl) \<Longrightarrow> explosionInv (updateExplosion expl)"
  by (auto simp add: explosionInv_def updateExplosion_def Let_def split: if_splits)

lemma powerMult_ge: "1 \<le> powerMult m"
  by (cases m) simp_all

lemma updateEnemy_list_all:
  assumes "\<And>p. P \<lparr>pos = p, speed = 0, radius = 2, color = COLORS_ENEMY_MISSILE,
                   active = True, maxRadius = 36, growthRate = 2.4 * sc,
                   isShrinking = False\<rparr>"
  shows "list_all P (explosionsRef s) \<longrightarrow> list_all P (explosionsRef (snd (updateEnemy sc e s)))"
  using assms by (simp add: updateEnemy_def moveEnemy_def checkCollisions_eq Let_def)

lemma updateEnemies_list_all:
  assumes "\<And>p. P \<lparr>pos = p, speed = 0, radius = 2, color = COLORS_ENEMY_MISSILE,
                   active = True, maxRadius = 36, growthRate = 2.4 * sc,
                   isShrinking = False\<rparr>"
  shows "list_all P (explosionsRef s) \<longrightarrow> list_all P (explosionsRef (snd (updateEnemies sc es s)))"
proof (rule updateEnemies_rel [where R = "\<lambda>s s'. list_all P (explosionsRef s) \<longrightarrow>
       list_all P (explosionsRef s')"])
  fix e s
  show "list_all P (explosionsRef s) \<longrightarrow>
        list_all P (explosionsRef (snd (updateEnemy sc e s)))"
    using assms by (rule updateEnemy_list_all [where P = P and sc = sc])
qed simp_all

lemma frame_explosionInv:
  assumes inv: "list_all explosionInv (explosionsRef s)" and dt: "0 \<le> dt" and pm: "1 \<le> pm"
  shows "list_all explosionInv (explosionsRef
     (cleanup (explosionsPhase (enemiesPhase (dt / 16.67)
        (missilesPhase (dt / 16.67) pm (spawnEnemies rnd dt s))))))"
proof -
  have sc: "0 \<le> dt / 16.67" using dt by simp
  define s1 where "s1 = spawnEnemies rnd dt s"
  define s2 where "s2 = missilesPhase (dt / 16.67) pm s1"
  define s3 where "s3 = enemiesPhase (dt / 16.67) s2"
  have "list_all explosionInv (explosionsRef s1)"
    using inv by (simp add: s1_def spawnEnemies_fields)
  then have "list_all explosionInv (explosionsRef s2)"
    unfolding s2_def missilesPhase_explosions
    by (rule updateMissiles_list_all [rotated]) (use sc pm in \<open>simp add: explosionInv_def\<close>)
  then have "list_all explosionInv (explosionsRef s3)"
    unfolding s3_def
    using updateEnemies_list_all [where P = explosionInv and sc = "dt / 16.67" and s = s2
        and es = "enemiesRef s2"] sc
    by (simp add: enemiesPhase_fields explosionInv_def)
  then have "list_all explosionInv (explosionsRef (cleanup (explosionsPhase s3)))"
    by (auto simp add: cleanup_fields explosionsPhase_fields list_all_iff updateExplosion_inv)
  then show ?thesis by (simp add: s3_def s2_def s1_def)
qed

lemma update_explosionInv:
  assumes "list_all explosionInv (explosionsRef s)" and "lastTimeRef s \<le> time"
  shows "list_all explosionInv (explosionsRef (update rnd time s))"
proof (cases "status (gameState s) = PLAYING")
  case True
  have "0 \<le> time - (if lastTimeRef s = 0 then time else lastTimeRef s)"
    using assms(2) by simp
  then show ?thesis
    using frame_explosionInv [of "s\<lparr>lastTimeRef := time\<rparr>"
        "time - (if lastTimeRef s = 0 then time else lastTimeRef s)"
        "powerMult (mode (gameState s))" rnd] assms(1)
    by (simp add: update_playing [OF True] checkGameOver_fields powerMult_ge)
next
  case False
  then show ?thesis using assms(1) by (simp add: update_not_playing)
qed

lemma launchRequest_explosions: "explosionsRef (launchRequest s p) = explosionsRef s"
  by (simp add: launchRequest_def split: option.splits prod.splits)

lemma reachable_explosionInv: "reachable s \<Longrightarrow> list_all explosionInv (explosionsRef s)"
proof (induction rule: reachable.induct)
  case reachable_init
  show ?case by (simp add: initialState_def)
next
  case (reachable_start s m)
  show ?case by (simp add: startGame_value)
next
  case (reachable_click s p)
  then show ?case by (simp add: handleCanvasClick_def launchRequest_explosions)
next
  case (reachable_frame s time rnd)
  then show ?case by (simp add: update_explosionInv)
qed

text \<open>
  C5. An explosion grows, then shrinks, then is retired. While it is active and not
  shrinking, a frame adds \<open>growthRate\<close> to the radius and makes it shrinking when the
  new radius is at least \<open>maxRadius\<close>; while it is active and shrinking, a frame takes
  half of \<open>growthRate\<close> off the radius and deactivates it when the new radius is at
  most 0; an inactive explosion does not change. Every explosion in the list of a state
  of a session is active, with a radius that is not negative and at most
  \<open>maxRadius + growthRate\<close>.
\<close>

theorem explosion_lifecycle:
  "(active expl \<and> \<not> isShrinking expl \<longrightarrow>
      updateExplosion expl =
        expl\<lparr>radius := radius expl + growthRate expl,
             isShrinking := (radius expl + growthRate expl \<ge> maxRadius expl)\<rparr>) \<and>
   (active expl \<and> isShrinking expl \<longrightarrow>
      updateExplosion expl =
        expl\<lparr>radius := radius expl - growthRate expl * 0.5,
             active := \<not> (radius expl - growthRate expl * 0.5 \<le> 0)\<rparr>) \<and>
   (\<not> active expl \<longrightarrow> updateExplosion expl = expl) \<and>
   (reachable s \<longrightarrow>
      list_all (\<lambda>e. active e \<and> 0 \<le> radius e \<and> radius e \<le> maxRadius e + growthRate e)
        (explosionsRef s))"
proof -
  have "reachable s \<Longrightarrow>
      list_all (\<lambda>e. active e \<and> 0 \<le> radius e \<and> radius e \<le> maxRadius e + growthRate e)
        (explosionsRef s)"
    using reachable_explosionInv [of s] by (simp add: list_all_iff explosionInv_def)
  then show ?thesis by (auto simp add: updateExplosion_def Let_def)
qed

lemma examplePlaying_frame:
  "update exampleDraws 1000 (startGame LOW initialState) = examplePlaying"
proof -
  have a: "status (gameState (startGame LOW initialState)) = PLAYING"
    by (simp add: startGame_value)
  show ?thesis
    unfolding update_playing [OF a]
    by (simp add: examplePlaying_def startGame_value spawnEnemies_wait spawnInterval_def
        missilesPhase_Nil enemiesPhase_Nil explosionsPhase_def cleanup_def checkGameOver_def
        WIN_SCORE_def INITIAL_BATTERIES_def)
qed

lemma findBestBattery_example:
  "findBestBattery 100 INITIAL_BATTERIES = Some (hd INITIAL_BATTERIES, 0)"
  by (simp add: findBestBattery_def closerBattery_def INITIAL_BATTERIES_def)

lemma exampleLaunched_value:
  "exampleLaunched =
    examplePlaying
      \<lparr>batteries := (hd INITIAL_BATTERIES)\<lparr>missiles := 19\<rparr> # tl INITIAL_BATTERIES,
       missilesRef :=
         [\<lparr>pos = \<lparr>x = 100, y = 560\<rparr>, speed = 5, radius = 2,
           color = COLORS_PLAYER_MISSILE, active = True,
           target = \<lparr>x = 100, y = 560\<rparr>, startPos = \<lparr>x = 100, y = 560\<rparr>\<rparr>]\<rparr>"
  by (simp add: exampleLaunched_def handleCanvasClick_def launchRequest_def
      examplePlaying_value findBestBattery_example)
    (simp add: INITIAL_BATTERIES_def)

lemma exampleExploded_value:
  "exampleExploded =
    examplePlaying
      \<lparr>batteries := (hd INITIAL_BATTERIES)\<lparr>missiles := 19\<rparr> # tl INITIAL_BATTERIES,
       explosionsRef :=
         [\<lparr>pos = \<lparr>x = 100, y = 560\<rparr>, speed = 0, radius = 5, color = COLORS_EXPLOSION,
           active = True, maxRadius = 96, growthRate = 3, isShrinking = False\<rparr>],
       lastTimeRef := 1016.67, spawnTimerRef := 16.67\<rparr>"
proof -
  have a: "status (gameState exampleLaunched) = PLAYING"
    by (simp add: exampleLaunched_value examplePlaying_value)
  have m: "missilesPhase 1 1 (exampleLaunched\<lparr>lastTimeRef := 1016.67, spawnTimerRef := 16.67\<rparr>) =
     exampleLaunched\<lparr>lastTimeRef := 1016.67, spawnTimerRef := 16.67,
       missilesRef := map (\<lambda>m. m\<lparr>active := False\<rparr>) (missilesRef exampleLaunched),
       explosionsRef := [\<lparr>pos = \<lparr>x = 100, y = 560\<rparr>, speed = 0, radius = 2, color = COLORS_EXPLOSION,
           active = True, maxRadius = 96, growthRate = 3, isShrinking = False\<rparr>]\<rparr>"
    by (simp add: missilesPhase_def updateMissile_def exampleLaunched_value examplePlaying_value)
  show ?thesis
    unfolding exampleExploded_def update_playing [OF a]
    apply (simp add: spawnEnemies_wait spawnInterval_def exampleLaunched_value examplePlaying_value)
    apply (simp add: m [unfolded exampleLaunched_value examplePlaying_value, simplified])
    apply (simp add: enemiesPhase_Nil explosionsPhase_def cleanup_def checkGameOver_def
        WIN_SCORE_def updateExplosion_def INITIAL_BATTERIES_def)
    done
qed

lemma reachable_exampleExploded: "reachable exampleExploded"
proof -
  have "reachable (startGame LOW initialState)"
    by (rule reachable_start [OF reachable_init])
  then have "reachable (update exampleDraws 1000 (startGame LOW initialState))"
    by (rule reachable_frame) (simp add: startGame_value)
  then have "reachable exampleLaunched"
    unfolding examplePlaying_frame exampleLaunched_def by (rule reachable_click)
  then show ?thesis
    unfolding exampleExploded_def
    by (rule reachable_frame) (simp add: exampleLaunched_value examplePlaying_value)
qed

theorem explosion_lifecycle_witness:
  "active (examplePlayerExplosion \<lparr>x = 0, y = 0\<rparr>) \<and>
   \<not> isShrinking (examplePlayerExplosion \<lparr>x = 0, y = 0\<rparr>) \<and>
   updateExplosion (examplePlayerExplosion \<lparr>x = 0, y = 0\<rparr>) =
     (examplePlayerExplosion \<lparr>x = 0, y = 0\<rparr>)\<lparr>radius := 23\<rparr> \<and>
   updateExplosion ((examplePlayerExplosion \<lparr>x = 0, y = 0\<rparr>)\<lparr>radius := 94\<rparr>) =
     (examplePlayerExplosion \<lparr>x = 0, y = 0\<rparr>)\<lparr>radius := 97, isShrinking := True\<rparr> \<and>
   updateExplosion ((examplePlayerExplosion \<lparr>x = 0, y = 0\<rparr>)\<lparr>radius := 1, isShrinking := True\<rparr>) =
     (examplePlayerExplosion \<lparr>x = 0, y = 0\<rparr>)\<lparr>radius := - 1 / 2, isShrinking := True, active := False\<rparr> \<and>
   reachable exampleExploded \<and>
   explosionsRef exampleExploded =
     [\<lparr>pos = \<lparr>x = 100, y = 560\<rparr>, speed = 0, radius = 5, color = COLORS_EXPLOSION,
       active = True, maxRadius = 96, growthRate = 3, isShrinking = False\<rparr>] \<and>
   list_all (\<lambda>e. active e \<and> 0 \<le> radius e \<and> radius e \<le> maxRadius e + growthRate e)
     (explosionsRef exampleExploded)"
  using explosion_lifecycle [of "examplePlayerExplosion \<lparr>x = 0, y = 0\<rparr>" exampleExploded]
    explosion_lifecycle [of "(examplePlayerExplosion \<lparr>x = 0, y = 0\<rparr>)\<lparr>radius := 94\<rparr>" exampleExploded]
    explosion_lifecycle [of "(examplePlayerExplosion \<lparr>x = 0, y = 0\<rparr>)\<lparr>radius := 1, isShrinking := True\<rparr>" exampleExploded]
    reachable_exampleExploded
  by (simp add: examplePlayerExplosion_def exampleExploded_value)

section \<open>Ground impact\<close>

lemma cityLater_refl: "cityLater c c"
  by (simp add: cityLater_def)

lemma batteryLater_refl: "batteryLater b b"
  by (simp add: batteryLater_def)

lemma cityLater_trans: "cityLater a b \<Longrightarrow> cityLater b c \<Longrightarrow> cityLater a c"
  by (simp add: cityLater_def)

lemma batteryLater_trans: "batteryLater a b \<Longrightarrow> batteryLater b c \<Longrightarrow> batteryLater a c"
  by (simp add: batteryLater_def)

lemma impactCities_later: "list_all2 cityLater cs (impactCities p cs)"
  by (simp add: impactCities_def list_all2_map2 cityLater_def list_all2_refl)

lemma impactBatteries_later: "list_all2 batteryLater bs (impactBatteries p bs)"
  by (simp add: impactBatteries_def list_all2_map2 batteryLater_def list_all2_refl)

lemma updateEnemy_ground:
  "cities (snd (updateEnemy sc e s)) =
     (if active e \<and>
         (sqrt ((x (target e) - x (pos e)) * (x (target e) - x (pos e)) +
                (y (target e) - y (pos e)) * (y (target e) - y (pos e))) \<le> speed e * sc \<or>
          sqrt ((x (target e) - x (pos e)) * (x (target e) - x (pos e)) +
                (y (target e) - y (pos e)) * (y (target e) - y (pos e))) = 0)
      then impactCities (pos e) (cities s) else cities s) \<and>
   batteries (snd (updateEnemy sc e s)) =
     (if active e \<and>
         (sqrt ((x (target e) - x (pos e)) * (x (target e) - x (pos e)) +
                (y (target e) - y (pos e)) * (y (target e) - y (pos e))) \<le> speed e * sc \<or>
          sqrt ((x (target e) - x (pos e)) * (x (target e) - x (pos e)) +
                (y (target e) - y (pos e)) * (y (target e) - y (pos e))) = 0)
      then impactBatteries (pos e) (batteries s) else batteries s) \<and>
   explosionsRef (snd (updateEnemy sc e s)) =
     (if active e \<and>
         (sqrt ((x (target e) - x (pos e)) * (x (target e) - x (pos e)) +
                (y (target e) - y (pos e)) * (y (target e) - y (pos e))) \<le> speed e * sc \<or>
          sqrt ((x (target e) - x (pos e)) * (x (target e) - x (pos e)) +
                (y (target e) - y (pos e)) * (y (target e) - y (pos e))) = 0)
      then explosionsRef s @
             [\<lparr>pos = pos e, speed = 0, radius = 2, color = COLORS_ENEMY_MISSILE,
               active = True, maxRadius = 36, growthRate = 2.4 * sc, isShrinking = False\<rparr>]
      else explosionsRef s)"
  by (auto simp add: updateEnemy_def moveEnemy_def checkCollisions_eq Let_def)

lemma updateEnemy_later:
  "list_all2 cityLater (cities s) (cities (snd (updateEnemy sc e s))) \<and>
   list_all2 batteryLater (batteries s) (batteries (snd (updateEnemy sc e s))) \<and>
   map missiles (batteries (snd (updateEnemy sc e s))) = map missiles (batteries s)"
  by (simp add: updateEnemy_ground impactCities_later impactBatteries_later list_all2_refl
      cityLater_refl batteryLater_refl) (simp add: impactBatteries_def)

lemma updateEnemies_later:
  "list_all2 cityLater (cities s) (cities (snd (updateEnemies sc es s))) \<and>
   list_all2 batteryLater (batteries s) (batteries (snd (updateEnemies sc es s))) \<and>
   map missiles (batteries (snd (updateEnemies sc es s))) = map missiles (batteries s)"
proof (rule updateEnemies_rel [where R = "\<lambda>s s'.
    list_all2 cityLater (cities s) (cities s') \<and>
    list_all2 batteryLater (batteries s) (batteries s') \<and>
    map missiles (batteries s') = map missiles (batteries s)"])
  fix s :: State
  show "list_all2 cityLater (cities s) (cities s) \<and>
        list_all2 batteryLater (batteries s) (batteries s) \<and>
        map missiles (batteries s) = map missiles (batteries s)"
    by (simp add: list_all2_refl cityLater_refl batteryLater_refl)
next
  fix a b c :: State
  assume "list_all2 cityLater (cities a) (cities b) \<and>
          list_all2 batteryLater (batteries a) (batteries b) \<and>
          map missiles (batteries b) = map missiles (batteries a)"
    and "list_all2 cityLater (cities b) (cities c) \<and>
          list_all2 batteryLater (batteries b) (batteries c) \<and>
          map missiles (batteries c) = map missiles (batteries b)"
  then show "list_all2 cityLater (cities a) (cities c) \<and>
          list_all2 batteryLater (batteries a) (batteries c) \<and>
          map missiles (batteries c) = map missiles (batteries a)"
    using list_all2_trans [of cityLater cityLater cityLater, OF cityLater_trans]
      list_all2_trans [of batteryLater batteryLater batteryLater, OF batteryLater_trans]
    by auto
next
  fix e s
  show "list_all2 cityLater (cities s) (cities (snd (updateEnemy sc e s))) \<and>
        list_all2 batteryLater (batteries s) (batteries (snd (updateEnemy sc e s))) \<and>
        map missiles (batteries (snd (updateEnemy sc e s))) = map missiles (batteries s)"
    by (rule updateEnemy_later)
qed

lemma update_playing_cases:
  assumes "status (gameState s) = PLAYING"
  obtains sc s2 where
    "update rnd time s =
       checkGameOver (batteries s) (cleanup (explosionsPhase (enemiesPhase sc s2)))"
    and "gameState s2 = gameState s" and "batteries s2 = batteries s"
    and "cities s2 = cities s" and "scoreRef s2 = scoreRef s"
proof -
  define dt where "dt = time - (if lastTimeRef s = 0 then time else lastTimeRef s)"
  define s2 where "s2 = missilesPhase (dt / 16.67) (powerMult (mode (gameState s)))
             (spawnEnemies rnd dt (s\<lparr>lastTimeRef := time\<rparr>))"
  have "update rnd time s =
       checkGameOver (batteries s) (cleanup (explosionsPhase (enemiesPhase (dt / 16.67) s2)))"
    using assms by (simp add: update_playing s2_def dt_def)
  moreover have "gameState s2 = gameState s" "batteries s2 = batteries s"
    "cities s2 = cities s" "scoreRef s2 = scoreRef s"
    by (simp_all add: s2_def missilesPhase_fields spawnEnemies_fields)
  ultimately show ?thesis by (rule that)
qed

lemma update_later:
  "list_all2 cityLater (cities s) (cities (update rnd time s)) \<and>
   list_all2 batteryLater (batteries s) (batteries (update rnd time s)) \<and>
   map missiles (batteries (update rnd time s)) = map missiles (batteries s)"
proof (cases "status (gameState s) = PLAYING")
  case True
  then obtain sc s2 where u: "update rnd time s =
       checkGameOver (batteries s) (cleanup (explosionsPhase (enemiesPhase sc s2)))"
    and c: "cities s2 = cities s" and b: "batteries s2 = batteries s"
    by (rule update_playing_cases)
  show ?thesis
    using updateEnemies_later [of s2 sc "enemiesRef s2"]
    by (simp add: u checkGameOver_fields cleanup_fields explosionsPhase_fields
        enemiesPhase_fields c b)
next
  case False
  then show ?thesis
    by (simp add: update_not_playing list_all2_refl cityLater_refl batteryLater_refl)
qed

lemma handleCanvasClick_later:
  "cities (handleCanvasClick s p) = cities s \<and>
   list_all2 batteryLater (batteries s) (batteries (handleCanvasClick s p))"
  by (simp add: handleCanvasClick_def launchRequest_def list_all2_map2 batteryLater_def
      list_all2_refl split: option.splits prod.splits)

lemma updateEnemy_ground_let:
  "(let dx = x (target e) - x (pos e);
        dy = y (target e) - y (pos e);
        dist = sqrt (dx * dx + dy * dy);
        moveDist = speed e * sc
    in if active e \<and> (dist \<le> moveDist \<or> dist = 0) then
         cities (snd (updateEnemy sc e s)) = impactCities (pos e) (cities s) \<and>
         batteries (snd (updateEnemy sc e s)) = impactBatteries (pos e) (batteries s)
       else
         cities (snd (updateEnemy sc e s)) = cities s \<and>
         batteries (snd (updateEnemy sc e s)) = batteries s)"
  by (auto simp add: updateEnemy_def moveEnemy_def checkCollisions_eq Let_def)

text \<open>
  C6. The impact at a point \<open>p\<close> marks a city destroyed exactly when
  \<open>\<bar>c.x - p.x\<bar> < 25\<close> and \<open>\<bar>c.y - p.y\<bar> < 25\<close>, and a battery exactly when both
  differences are below 35; every city and every battery is tested on its own, so one
  impact can destroy several, and one that was destroyed stays so. An enemy that arrives
  applies the two tests at its position to all cities and batteries; an enemy that does
  not arrive changes none. Over a frame of \<open>update\<close> in the status PLAYING the cities
  and batteries are the result of the impacts of all enemies that arrive in the frame, in
  their order: a city or battery is destroyed after the frame exactly when it was before
  or one of the arriving enemies is within its threshold; in any other status a frame
  changes none. A frame and a click keep every city and battery that was destroyed.
\<close>

theorem ground_impact:
  "impactCities p cs =
     map (\<lambda>c. c\<lparr>c_destroyed := c_destroyed c \<or>
                 (\<bar>x (c_pos c) - x p\<bar> < 25 \<and> \<bar>y (c_pos c) - y p\<bar> < 25)\<rparr>) cs \<and>
   impactBatteries p bs =
     map (\<lambda>b. b\<lparr>b_destroyed := b_destroyed b \<or>
                 (\<bar>x (b_pos b) - x p\<bar> < 35 \<and> \<bar>y (b_pos b) - y p\<bar> < 35)\<rparr>) bs \<and>
   (let dx = x (target e) - x (pos e);
        dy = y (target e) - y (pos e);
        dist = sqrt (dx * dx + dy * dy);
        moveDist = speed e * (deltaTime / 16.67)
    in if active e \<and> (dist \<le> moveDist \<or> dist = 0) then
         cities (snd (updateEnemy (deltaTime / 16.67) e s)) = impactCities (pos e) (cities s) \<and>
         batteries (snd (updateEnemy (deltaTime / 16.67) e s)) =
           impactBatteries (pos e) (batteries s)
       else
         cities (snd (updateEnemy (deltaTime / 16.67) e s)) = cities s \<and>
         batteries (snd (updateEnemy (deltaTime / 16.67) e s)) = batteries s) \<and>
   list_all2 cityLater (cities s) (cities (update rnd time s)) \<and>
   list_all2 batteryLater (batteries s) (batteries (update rnd time s)) \<and>
   list_all2 cityLater (cities s) (cities (handleCanvasClick s q)) \<and>
   list_all2 batteryLater (batteries s) (batteries (handleCanvasClick s q)) \<and>
   (if status (gameState s) = PLAYING then
      (let dt = time - (if lastTimeRef s = 0 then time else lastTimeRef s);
           arrivals = filter (\<lambda>e. active e \<and> arrives dt e)
                        (enemiesRef (spawnEnemies rnd dt (s\<lparr>lastTimeRef := time\<rparr>)))
       in cities (update rnd time s) =
            foldl (\<lambda>cs e. impactCities (pos e) cs) (cities s) arrivals \<and>
          batteries (update rnd time s) =
            foldl (\<lambda>bs e. impactBatteries (pos e) bs) (batteries s) arrivals \<and>
          cities (update rnd time s) =
            map (\<lambda>c. c\<lparr>c_destroyed := c_destroyed c \<or>
                   list_ex (\<lambda>e. \<bar>x (c_pos c) - x (pos e)\<bar> < 25 \<and>
                                  \<bar>y (c_pos c) - y (pos e)\<bar> < 25) arrivals\<rparr>) (cities s) \<and>
          batteries (update rnd time s) =
            map (\<lambda>b. b\<lparr>b_destroyed := b_destroyed b \<or>
                   list_ex (\<lambda>e. \<bar>x (b_pos b) - x (pos e)\<bar> < 35 \<and>
                                  \<bar>y (b_pos b) - y (pos e)\<bar> < 35) arrivals\<rparr>) (batteries s))
    else cities (update rnd time s) = cities s \<and> batteries (update rnd time s) = batteries s)"
proof -
  have a1: "impactCities p cs =
     map (\<lambda>c. c\<lparr>c_destroyed := c_destroyed c \<or>
                 (\<bar>x (c_pos c) - x p\<bar> < 25 \<and> \<bar>y (c_pos c) - y p\<bar> < 25)\<rparr>) cs"
    by (auto simp add: impactCities_def)
  have a2: "impactBatteries p bs =
     map (\<lambda>b. b\<lparr>b_destroyed := b_destroyed b \<or>
                 (\<bar>x (b_pos b) - x p\<bar> < 35 \<and> \<bar>y (b_pos b) - y p\<bar> < 35)\<rparr>) bs"
    by (auto simp add: impactBatteries_def)
  have a3: "list_all2 cityLater (cities s) (cities (handleCanvasClick s q))"
    by (simp add: handleCanvasClick_later list_all2_refl cityLater_refl)
  have a4: "if status (gameState s) = PLAYING then
      (let dt = time - (if lastTimeRef s = 0 then time else lastTimeRef s);
           arrivals = filter (\<lambda>e. active e \<and> arrives dt e)
                        (enemiesRef (spawnEnemies rnd dt (s\<lparr>lastTimeRef := time\<rparr>)))
       in cities (update rnd time s) =
            foldl (\<lambda>cs e. impactCities (pos e) cs) (cities s) arrivals \<and>
          batteries (update rnd time s) =
            foldl (\<lambda>bs e. impactBatteries (pos e) bs) (batteries s) arrivals \<and>
          cities (update rnd time s) =
            map (\<lambda>c. c\<lparr>c_destroyed := c_destroyed c \<or>
                   list_ex (\<lambda>e. \<bar>x (c_pos c) - x (pos e)\<bar> < 25 \<and>
                                  \<bar>y (c_pos c) - y (pos e)\<bar> < 25) arrivals\<rparr>) (cities s) \<and>
          batteries (update rnd time s) =
            map (\<lambda>b. b\<lparr>b_destroyed := b_destroyed b \<or>
                   list_ex (\<lambda>e. \<bar>x (b_pos b) - x (pos e)\<bar> < 35 \<and>
                                  \<bar>y (b_pos b) - y (pos e)\<bar> < 35) arrivals\<rparr>) (batteries s))
    else cities (update rnd time s) = cities s \<and> batteries (update rnd time s) = batteries s"
  proof (cases "status (gameState s) = PLAYING")
    case True
    note f = update_frame_spec(3,4) [OF True refl refl refl refl, of rnd time]
    show ?thesis
      unfolding Let_def if_P [OF True]
      by (intro conjI f f [unfolded foldl_impactCities foldl_impactBatteries])
  next
    case False
    then show ?thesis by (simp add: update_not_playing)
  qed
  show ?thesis
    using a1 a2 updateEnemy_ground_let [of e "deltaTime / 16.67" s]
      conjunct1 [OF update_later [of s rnd time]]
      conjunct1 [OF conjunct2 [OF update_later [of s rnd time]]]
      a3 conjunct2 [OF handleCanvasClick_later [of s q]] a4
    by (intro conjI)
qed


theorem ground_impact_witness:
  "impactCities \<lparr>x = 210, y = 560\<rparr> INITIAL_CITIES =
     (hd INITIAL_CITIES)\<lparr>c_destroyed := True\<rparr> # tl INITIAL_CITIES \<and>
   impactBatteries \<lparr>x = 120, y = 590\<rparr> INITIAL_BATTERIES =
     (hd INITIAL_BATTERIES)\<lparr>b_destroyed := True\<rparr> # tl INITIAL_BATTERIES \<and>
   cities (snd (updateEnemy (16.67 / 16.67) (exampleEnemy \<lparr>x = 200, y = 569\<rparr>)
     examplePlaying)) = (hd INITIAL_CITIES)\<lparr>c_destroyed := True\<rparr> # tl INITIAL_CITIES \<and>
   status (gameState (examplePlaying\<lparr>enemiesRef :=
      [exampleEnemy \<lparr>x = 200, y = 569\<rparr>,
       \<lparr>pos = \<lparr>x = 100, y = 559\<rparr>, speed = 1, radius = 2, color = COLORS_ENEMY_MISSILE,
        active = True, target = \<lparr>x = 100, y = 560\<rparr>,
        startPos = \<lparr>x = 100, y = - 20\<rparr>\<rparr>]\<rparr>)) = PLAYING \<and>
   cities (update exampleDraws 1016.67 (examplePlaying\<lparr>enemiesRef :=
      [exampleEnemy \<lparr>x = 200, y = 569\<rparr>,
       \<lparr>pos = \<lparr>x = 100, y = 559\<rparr>, speed = 1, radius = 2, color = COLORS_ENEMY_MISSILE,
        active = True, target = \<lparr>x = 100, y = 560\<rparr>,
        startPos = \<lparr>x = 100, y = - 20\<rparr>\<rparr>]\<rparr>)) =
     (hd INITIAL_CITIES)\<lparr>c_destroyed := True\<rparr> # tl INITIAL_CITIES \<and>
   batteries (update exampleDraws 1016.67 (examplePlaying\<lparr>enemiesRef :=
      [exampleEnemy \<lparr>x = 200, y = 569\<rparr>,
       \<lparr>pos = \<lparr>x = 100, y = 559\<rparr>, speed = 1, radius = 2, color = COLORS_ENEMY_MISSILE,
        active = True, target = \<lparr>x = 100, y = 560\<rparr>,
        startPos = \<lparr>x = 100, y = - 20\<rparr>\<rparr>]\<rparr>)) =
     (hd INITIAL_BATTERIES)\<lparr>b_destroyed := True\<rparr> # tl INITIAL_BATTERIES \<and>
   c_destroyed (hd (cities (examplePlaying\<lparr>cities :=
      impactCities \<lparr>x = 210, y = 560\<rparr> INITIAL_CITIES\<rparr>))) \<and>
   c_destroyed (hd (cities (update exampleDraws 1016.67 (examplePlaying\<lparr>cities :=
      impactCities \<lparr>x = 210, y = 560\<rparr> INITIAL_CITIES\<rparr>)))) \<and>
   c_destroyed (hd (cities (handleCanvasClick (examplePlaying\<lparr>cities :=
      impactCities \<lparr>x = 210, y = 560\<rparr> INITIAL_CITIES\<rparr>) \<lparr>x = 100, y = 560\<rparr>)))"
proof -
  note g1 = ground_impact [where p = "\<lparr>x = 210, y = 560\<rparr>" and cs = INITIAL_CITIES
      and bs = INITIAL_BATTERIES and e = "exampleEnemy \<lparr>x = 200, y = 569\<rparr>"
      and deltaTime = "16.67"
      and s = "examplePlaying\<lparr>cities := impactCities \<lparr>x = 210, y = 560\<rparr> INITIAL_CITIES\<rparr>"
      and rnd = exampleDraws and time = "1016.67" and q = "\<lparr>x = 100, y = 560\<rparr>"]
  note g2 = ground_impact [where p = "\<lparr>x = 120, y = 590\<rparr>" and cs = INITIAL_CITIES
      and bs = INITIAL_BATTERIES and e = "exampleEnemy \<lparr>x = 200, y = 569\<rparr>"
      and deltaTime = "16.67" and s = examplePlaying
      and rnd = exampleDraws and time = "1016.67" and q = "\<lparr>x = 100, y = 560\<rparr>"]
  note g3 = ground_impact [where p = "\<lparr>x = 120, y = 590\<rparr>" and cs = INITIAL_CITIES
      and bs = INITIAL_BATTERIES and e = "exampleEnemy \<lparr>x = 200, y = 569\<rparr>"
      and deltaTime = "16.67"
      and s = "examplePlaying\<lparr>enemiesRef :=
        [exampleEnemy \<lparr>x = 200, y = 569\<rparr>,
         \<lparr>pos = \<lparr>x = 100, y = 559\<rparr>, speed = 1, radius = 2, color = COLORS_ENEMY_MISSILE,
          active = True, target = \<lparr>x = 100, y = 560\<rparr>,
          startPos = \<lparr>x = 100, y = - 20\<rparr>\<rparr>]\<rparr>"
      and rnd = exampleDraws and time = "1016.67" and q = "\<lparr>x = 100, y = 560\<rparr>"]
  have c: "impactCities \<lparr>x = 210, y = 560\<rparr> INITIAL_CITIES =
     (hd INITIAL_CITIES)\<lparr>c_destroyed := True\<rparr> # tl INITIAL_CITIES"
    using g1 [THEN conjunct1] by (simp add: INITIAL_CITIES_def)
  have b: "impactBatteries \<lparr>x = 120, y = 590\<rparr> INITIAL_BATTERIES =
     (hd INITIAL_BATTERIES)\<lparr>b_destroyed := True\<rparr> # tl INITIAL_BATTERIES"
    using g2 [THEN conjunct2, THEN conjunct1] by (simp add: INITIAL_BATTERIES_def)
  have a: "cities (snd (updateEnemy (16.67 / 16.67) (exampleEnemy \<lparr>x = 200, y = 569\<rparr>)
     examplePlaying)) = (hd INITIAL_CITIES)\<lparr>c_destroyed := True\<rparr> # tl INITIAL_CITIES"
    using g2 [THEN conjunct2, THEN conjunct2, THEN conjunct1]
    by (simp add: Let_def exampleEnemy_def examplePlaying_value impactCities_def
        INITIAL_CITIES_def)
  have pl: "status (gameState (examplePlaying\<lparr>enemiesRef :=
      [exampleEnemy \<lparr>x = 200, y = 569\<rparr>,
       \<lparr>pos = \<lparr>x = 100, y = 559\<rparr>, speed = 1, radius = 2, color = COLORS_ENEMY_MISSILE,
        active = True, target = \<lparr>x = 100, y = 560\<rparr>,
        startPos = \<lparr>x = 100, y = - 20\<rparr>\<rparr>]\<rparr>)) = PLAYING"
    by (simp add: examplePlaying_value)
  note fr = g3 [THEN conjunct2, THEN conjunct2, THEN conjunct2, THEN conjunct2,
      THEN conjunct2, THEN conjunct2, THEN conjunct2, unfolded if_P [OF pl] Let_def]
  have fc: "cities (update exampleDraws 1016.67 (examplePlaying\<lparr>enemiesRef :=
      [exampleEnemy \<lparr>x = 200, y = 569\<rparr>,
       \<lparr>pos = \<lparr>x = 100, y = 559\<rparr>, speed = 1, radius = 2, color = COLORS_ENEMY_MISSILE,
        active = True, target = \<lparr>x = 100, y = 560\<rparr>,
        startPos = \<lparr>x = 100, y = - 20\<rparr>\<rparr>]\<rparr>)) =
     (hd INITIAL_CITIES)\<lparr>c_destroyed := True\<rparr> # tl INITIAL_CITIES"
    unfolding fr [THEN conjunct2, THEN conjunct2, THEN conjunct1]
    by (simp add: examplePlaying_value exampleEnemy_def arrives_def moveDistance_def
        distanceToTarget_def spawnEnemies_def spawnInterval_def Let_def INITIAL_CITIES_def)
  have fb: "batteries (update exampleDraws 1016.67 (examplePlaying\<lparr>enemiesRef :=
      [exampleEnemy \<lparr>x = 200, y = 569\<rparr>,
       \<lparr>pos = \<lparr>x = 100, y = 559\<rparr>, speed = 1, radius = 2, color = COLORS_ENEMY_MISSILE,
        active = True, target = \<lparr>x = 100, y = 560\<rparr>,
        startPos = \<lparr>x = 100, y = - 20\<rparr>\<rparr>]\<rparr>)) =
     (hd INITIAL_BATTERIES)\<lparr>b_destroyed := True\<rparr> # tl INITIAL_BATTERIES"
    unfolding fr [THEN conjunct2, THEN conjunct2, THEN conjunct2]
    by (simp add: examplePlaying_value exampleEnemy_def arrives_def moveDistance_def
        distanceToTarget_def spawnEnemies_def spawnInterval_def Let_def INITIAL_BATTERIES_def)
  have d: "c_destroyed (hd (cities (examplePlaying\<lparr>cities :=
      impactCities \<lparr>x = 210, y = 560\<rparr> INITIAL_CITIES\<rparr>)))"
    by (simp add: c)
  have u: "c_destroyed (hd (cities (update exampleDraws 1016.67 (examplePlaying\<lparr>cities :=
      impactCities \<lparr>x = 210, y = 560\<rparr> INITIAL_CITIES\<rparr>))))"
    using g1 [THEN conjunct2, THEN conjunct2, THEN conjunct2, THEN conjunct1]
    by (auto simp add: c list_all2_Cons1 cityLater_def)
  have h: "c_destroyed (hd (cities (handleCanvasClick (examplePlaying\<lparr>cities :=
      impactCities \<lparr>x = 210, y = 560\<rparr> INITIAL_CITIES\<rparr>) \<lparr>x = 100, y = 560\<rparr>)))"
    using g1 [THEN conjunct2, THEN conjunct2, THEN conjunct2, THEN conjunct2, THEN conjunct2,
        THEN conjunct1]
    by (auto simp add: c list_all2_Cons1 cityLater_def)
  from c b a pl fc fb d u h show ?thesis by (intro conjI)
qed

section \<open>Where an arriving enemy strikes\<close>








section \<open>The score\<close>

lemma update_score:
  "scoreRef s \<le> scoreRef (update rnd time s) \<and>
   20 dvd (scoreRef (update rnd time s) - scoreRef s)"
proof (cases "status (gameState s) = PLAYING")
  case True
  then obtain sc s2 where u: "update rnd time s =
       checkGameOver (batteries s) (cleanup (explosionsPhase (enemiesPhase sc s2)))"
    and c: "scoreRef s2 = scoreRef s"
    by (rule update_playing_cases)
  show ?thesis
    using updateEnemies_score [of s2 sc "enemiesRef s2"]
    by (simp add: u checkGameOver_fields cleanup_fields explosionsPhase_fields
        enemiesPhase_fields c)
next
  case False
  then show ?thesis by (simp add: update_not_playing)
qed

lemma launchRequest_score: "scoreRef (launchRequest s p) = scoreRef s"
  by (simp add: launchRequest_def split: option.splits prod.splits)

lemma moveEnemy_score: "scoreRef (snd (moveEnemy sc e s)) = scoreRef s"
  by (simp add: moveEnemy_def Let_def)

lemma moveEnemy_example:
  "moveEnemy 1 (exampleEnemy \<lparr>x = 200, y = 100\<rparr>) s =
     ((exampleEnemy \<lparr>x = 200, y = 100\<rparr>)\<lparr>pos := \<lparr>x = 200, y = 101\<rparr>\<rparr>, s)"
  by (simp add: moveEnemy_def exampleEnemy_def sqrt_220900)

lemma hits_example:
  "hits ((exampleEnemy \<lparr>x = 200, y = 100\<rparr>)\<lparr>pos := \<lparr>x = 200, y = 101\<rparr>\<rparr>)
     (examplePlayerExplosion \<lparr>x = 200, y = 101\<rparr>)"
  by (simp add: hits_def exampleEnemy_def examplePlayerExplosion_def)

text \<open>
  C8. The score never goes down, and it changes only in the test of an enemy against an
  explosion: a test that succeeds adds exactly 20, a test that fails adds nothing, and a
  test succeeds only against an active explosion of the player's colour. The collision
  loop of one enemy adds 20 for each test that succeeds; moving an enemy, spawning, the
  missiles, the explosions, the cleanup, the check for the end of the game and a click
  leave the score alone; so over a frame the score grows by a multiple of 20.
\<close>

theorem score_changes:
  "collide (e, s) expl =
     (if hits e expl then
        (e\<lparr>active := False\<rparr>,
         s\<lparr>scoreRef := scoreRef s + 20,
           gameState := (gameState s)\<lparr>score := scoreRef s + 20\<rparr>\<rparr>)
      else (e, s)) \<and>
   (hits e expl \<longrightarrow> color expl = COLORS_EXPLOSION \<and> active expl) \<and>
   scoreRef (snd (checkCollisions e s)) =
     scoreRef s + 20 * int (length (filter (hits e) (explosionsRef s))) \<and>
   scoreRef (snd (moveEnemy speedScale e s)) = scoreRef s \<and>
   scoreRef (spawnEnemies rnd deltaTime s) = scoreRef s \<and>
   scoreRef (missilesPhase speedScale pm s) = scoreRef s \<and>
   scoreRef (explosionsPhase s) = scoreRef s \<and>
   scoreRef (cleanup s) = scoreRef s \<and>
   scoreRef (checkGameOver bs s) = scoreRef s \<and>
   scoreRef (handleCanvasClick s p) = scoreRef s \<and>
   scoreRef s \<le> scoreRef (update rnd time s) \<and>
   20 dvd (scoreRef (update rnd time s) - scoreRef s)"
proof -
  have a: "collide (e, s) expl =
     (if hits e expl then
        (e\<lparr>active := False\<rparr>,
         s\<lparr>scoreRef := scoreRef s + 20,
           gameState := (gameState s)\<lparr>score := scoreRef s + 20\<rparr>\<rparr>)
      else (e, s))"
    by (simp add: collide_def)
  have b: "hits e expl \<longrightarrow> color expl = COLORS_EXPLOSION \<and> active expl"
    by (simp add: hits_def)
  have c: "scoreRef (snd (checkCollisions e s)) =
     scoreRef s + 20 * int (length (filter (hits e) (explosionsRef s)))"
    by (simp add: checkCollisions_def foldl_collide_score)
  have d: "scoreRef (handleCanvasClick s p) = scoreRef s"
    by (simp add: handleCanvasClick_def launchRequest_score)
  show ?thesis
    using a b c d update_score [of s rnd time]
    by (simp add: moveEnemy_score spawnEnemies_fields missilesPhase_fields
        explosionsPhase_fields cleanup_fields checkGameOver_fields)
qed

lemma one_hit_frame:
  "update exampleDraws 1016.67
     (examplePlaying\<lparr>enemiesRef := [exampleEnemy \<lparr>x = 200, y = 100\<rparr>],
        explosionsRef := [examplePlayerExplosion \<lparr>x = 200, y = 101\<rparr>]\<rparr>) =
   examplePlaying
     \<lparr>gameState := \<lparr>score = 20, level = 1, mode = LOW, status = PLAYING\<rparr>,
      explosionsRef := [(examplePlayerExplosion \<lparr>x = 200, y = 101\<rparr>)\<lparr>radius := 23\<rparr>],
      lastTimeRef := 1016.67, spawnTimerRef := 16.67, scoreRef := 20\<rparr>"
proof -
  have a: "status (gameState (examplePlaying\<lparr>enemiesRef := [exampleEnemy \<lparr>x = 200, y = 100\<rparr>],
        explosionsRef := [examplePlayerExplosion \<lparr>x = 200, y = 101\<rparr>]\<rparr>)) = PLAYING"
    by (simp add: examplePlaying_value)
  have e: "enemiesPhase 1
      (examplePlaying\<lparr>enemiesRef := [exampleEnemy \<lparr>x = 200, y = 100\<rparr>],
         explosionsRef := [examplePlayerExplosion \<lparr>x = 200, y = 101\<rparr>],
         lastTimeRef := 1016.67, spawnTimerRef := 16.67\<rparr>) =
     examplePlaying
       \<lparr>gameState := \<lparr>score = 20, level = 1, mode = LOW, status = PLAYING\<rparr>,
        enemiesRef := [(exampleEnemy \<lparr>x = 200, y = 100\<rparr>)
                         \<lparr>pos := \<lparr>x = 200, y = 101\<rparr>, active := False\<rparr>],
        explosionsRef := [examplePlayerExplosion \<lparr>x = 200, y = 101\<rparr>],
        lastTimeRef := 1016.67, spawnTimerRef := 16.67, scoreRef := 20\<rparr>"
    by (simp add: enemiesPhase_def updateEnemy_def moveEnemy_example checkCollisions_eq
        hits_example) (simp add: examplePlaying_value exampleEnemy_def)
  show ?thesis
    unfolding update_playing [OF a]
    apply (simp add: spawnEnemies_wait spawnInterval_def examplePlaying_value missilesPhase_Nil)
    apply (simp add: e [unfolded examplePlaying_value, simplified])
    apply (simp add: explosionsPhase_def cleanup_def checkGameOver_def WIN_SCORE_def
        updateExplosion_def exampleEnemy_def examplePlayerExplosion_def INITIAL_BATTERIES_def)
    done
qed

theorem score_changes_witness:
  "hits ((exampleEnemy \<lparr>x = 200, y = 100\<rparr>)\<lparr>pos := \<lparr>x = 200, y = 101\<rparr>\<rparr>)
     (examplePlayerExplosion \<lparr>x = 200, y = 101\<rparr>) \<and>
   color (examplePlayerExplosion \<lparr>x = 200, y = 101\<rparr>) = COLORS_EXPLOSION \<and>
   active (examplePlayerExplosion \<lparr>x = 200, y = 101\<rparr>) \<and>
   scoreRef (snd (collide
     ((exampleEnemy \<lparr>x = 200, y = 100\<rparr>)\<lparr>pos := \<lparr>x = 200, y = 101\<rparr>\<rparr>, examplePlaying)
     (examplePlayerExplosion \<lparr>x = 200, y = 101\<rparr>))) = 20 \<and>
   scoreRef examplePlaying = 0 \<and>
   scoreRef (update exampleDraws 1016.67
     (examplePlaying\<lparr>enemiesRef := [exampleEnemy \<lparr>x = 200, y = 100\<rparr>],
        explosionsRef := [examplePlayerExplosion \<lparr>x = 200, y = 101\<rparr>]\<rparr>)) = 20"
proof -
  note s = score_changes [where e = "(exampleEnemy \<lparr>x = 200, y = 100\<rparr>)\<lparr>pos := \<lparr>x = 200, y = 101\<rparr>\<rparr>"
      and s = examplePlaying and expl = "examplePlayerExplosion \<lparr>x = 200, y = 101\<rparr>"
      and speedScale = 1 and rnd = exampleDraws and deltaTime = "16.67" and pm = 1
      and bs = INITIAL_BATTERIES and p = "\<lparr>x = 0, y = 0\<rparr>" and time = "1016.67"]
  have "color (examplePlayerExplosion \<lparr>x = 200, y = 101\<rparr>) = COLORS_EXPLOSION \<and>
        active (examplePlayerExplosion \<lparr>x = 200, y = 101\<rparr>)"
    using s [THEN conjunct2, THEN conjunct1] hits_example by simp
  moreover have "scoreRef (snd (collide
     ((exampleEnemy \<lparr>x = 200, y = 100\<rparr>)\<lparr>pos := \<lparr>x = 200, y = 101\<rparr>\<rparr>, examplePlaying)
     (examplePlayerExplosion \<lparr>x = 200, y = 101\<rparr>))) = 20"
    unfolding s [THEN conjunct1] using hits_example by (simp add: examplePlaying_value)
  moreover have "scoreRef (update exampleDraws 1016.67
     (examplePlaying\<lparr>enemiesRef := [exampleEnemy \<lparr>x = 200, y = 100\<rparr>],
        explosionsRef := [examplePlayerExplosion \<lparr>x = 200, y = 101\<rparr>]\<rparr>)) = 20"
    unfolding one_hit_frame by simp
  ultimately show ?thesis using hits_example by (simp add: examplePlaying_value)
qed

section \<open>One enemy in two explosions\<close>

lemma hits_second_example:
  "hits ((exampleEnemy \<lparr>x = 200, y = 100\<rparr>)\<lparr>pos := \<lparr>x = 200, y = 101\<rparr>\<rparr>)
     (examplePlayerExplosion \<lparr>x = 203, y = 105\<rparr>)"
  by (simp add: hits_def exampleEnemy_def examplePlayerExplosion_def sqrt_25)

lemma two_hits_enemiesPhase:
  "enemiesPhase 1
      (examplePlaying\<lparr>enemiesRef := [exampleEnemy \<lparr>x = 200, y = 100\<rparr>],
         explosionsRef := [examplePlayerExplosion \<lparr>x = 200, y = 101\<rparr>,
                           examplePlayerExplosion \<lparr>x = 203, y = 105\<rparr>],
         lastTimeRef := 1016.67, spawnTimerRef := 16.67\<rparr>) =
     examplePlaying
       \<lparr>gameState := \<lparr>score = 40, level = 1, mode = LOW, status = PLAYING\<rparr>,
        enemiesRef := [(exampleEnemy \<lparr>x = 200, y = 100\<rparr>)
                         \<lparr>pos := \<lparr>x = 200, y = 101\<rparr>, active := False\<rparr>],
        explosionsRef := [examplePlayerExplosion \<lparr>x = 200, y = 101\<rparr>,
                          examplePlayerExplosion \<lparr>x = 203, y = 105\<rparr>],
        lastTimeRef := 1016.67, spawnTimerRef := 16.67, scoreRef := 40\<rparr>"
  by (simp add: enemiesPhase_def updateEnemy_def moveEnemy_example checkCollisions_eq
      hits_example hits_second_example) (simp add: examplePlaying_value exampleEnemy_def)

text \<open>
  C1. One enemy, moved by the frame into the reach of two of the player's explosions,
  is deactivated by the first test and still scores at the second: the frame starts with
  the score 0 and one enemy, and ends with the score 40 and no enemy.
\<close>

theorem two_explosions_score_twice:
  "scoreRef (examplePlaying\<lparr>enemiesRef := [exampleEnemy \<lparr>x = 200, y = 100\<rparr>],
        explosionsRef := [examplePlayerExplosion \<lparr>x = 200, y = 101\<rparr>,
                          examplePlayerExplosion \<lparr>x = 203, y = 105\<rparr>]\<rparr>) = 0 \<and>
   update exampleDraws 1016.67
     (examplePlaying\<lparr>enemiesRef := [exampleEnemy \<lparr>x = 200, y = 100\<rparr>],
        explosionsRef := [examplePlayerExplosion \<lparr>x = 200, y = 101\<rparr>,
                          examplePlayerExplosion \<lparr>x = 203, y = 105\<rparr>]\<rparr>) =
   examplePlaying
     \<lparr>gameState := \<lparr>score = 40, level = 1, mode = LOW, status = PLAYING\<rparr>,
      explosionsRef := [(examplePlayerExplosion \<lparr>x = 200, y = 101\<rparr>)\<lparr>radius := 23\<rparr>,
                        (examplePlayerExplosion \<lparr>x = 203, y = 105\<rparr>)\<lparr>radius := 23\<rparr>],
      lastTimeRef := 1016.67, spawnTimerRef := 16.67, scoreRef := 40\<rparr> \<and>
   scoreRef (snd (checkCollisions
      ((exampleEnemy \<lparr>x = 200, y = 100\<rparr>)\<lparr>pos := \<lparr>x = 200, y = 101\<rparr>, active := False\<rparr>)
      (examplePlaying\<lparr>explosionsRef := [examplePlayerExplosion \<lparr>x = 200, y = 101\<rparr>]\<rparr>))) = 20"
proof -
  have a: "status (gameState (examplePlaying\<lparr>enemiesRef := [exampleEnemy \<lparr>x = 200, y = 100\<rparr>],
        explosionsRef := [examplePlayerExplosion \<lparr>x = 200, y = 101\<rparr>,
                          examplePlayerExplosion \<lparr>x = 203, y = 105\<rparr>]\<rparr>)) = PLAYING"
    by (simp add: examplePlaying_value)
  have u: "update exampleDraws 1016.67
     (examplePlaying\<lparr>enemiesRef := [exampleEnemy \<lparr>x = 200, y = 100\<rparr>],
        explosionsRef := [examplePlayerExplosion \<lparr>x = 200, y = 101\<rparr>,
                          examplePlayerExplosion \<lparr>x = 203, y = 105\<rparr>]\<rparr>) =
   examplePlaying
     \<lparr>gameState := \<lparr>score = 40, level = 1, mode = LOW, status = PLAYING\<rparr>,
      explosionsRef := [(examplePlayerExplosion \<lparr>x = 200, y = 101\<rparr>)\<lparr>radius := 23\<rparr>,
                        (examplePlayerExplosion \<lparr>x = 203, y = 105\<rparr>)\<lparr>radius := 23\<rparr>],
      lastTimeRef := 1016.67, spawnTimerRef := 16.67, scoreRef := 40\<rparr>"
    unfolding update_playing [OF a]
    apply (simp add: spawnEnemies_wait spawnInterval_def examplePlaying_value missilesPhase_Nil)
    apply (simp add: two_hits_enemiesPhase [unfolded examplePlaying_value, simplified])
    apply (simp add: explosionsPhase_def cleanup_def checkGameOver_def WIN_SCORE_def
        updateExplosion_def exampleEnemy_def examplePlayerExplosion_def INITIAL_BATTERIES_def)
    done
  have c: "scoreRef (snd (checkCollisions
      ((exampleEnemy \<lparr>x = 200, y = 100\<rparr>)\<lparr>pos := \<lparr>x = 200, y = 101\<rparr>, active := False\<rparr>)
      (examplePlaying\<lparr>explosionsRef := [examplePlayerExplosion \<lparr>x = 200, y = 101\<rparr>]\<rparr>))) = 20"
    using hits_example by (simp add: checkCollisions_eq examplePlaying_value)
  show ?thesis using u c by (simp add: examplePlaying_value)
qed

section \<open>The spawn interval\<close>

lemma sqrt_348100: "sqrt 348100 = 590"
  by (rule real_sqrt_unique) simp_all

text \<open>
  What the spawner does: below or at the interval it only adds the frame's delta to the
  accumulator (\<open>spawnEnemies_wait\<close>); above it, it resets the accumulator and, when a
  city or battery is left, appends one active enemy that starts at \<open>y = -20\<close> and
  targets one of them, and otherwise appends nothing. The interval is
  \<open>max 500 (2000 - score)\<close>.
\<close>

lemma spawnInterval_eq: "spawnInterval sc = max 500 (2000 - real_of_int sc)"
  by (simp add: spawnInterval_def)

lemma random_index_in_range:
  assumes "0 < n"
  shows "nat \<lfloor>Rep_rand01 r * real n\<rfloor> < n"
proof -
  have r: "0 \<le> Rep_rand01 r" "Rep_rand01 r < 1"
    using Rep_rand01 [of r] by simp_all
  have "Rep_rand01 r * real n < real n"
    using r assms by simp
  then have "\<lfloor>Rep_rand01 r * real n\<rfloor> < int n"
    by (simp add: floor_less_iff)
  moreover have "0 \<le> \<lfloor>Rep_rand01 r * real n\<rfloor>"
    using r by simp
  ultimately show ?thesis by (simp add: nat_less_iff)
qed

lemma spawnEnemies_skip:
  assumes "spawnTimerRef s + dt > spawnInterval (scoreRef s)"
    and "list_all c_destroyed (cities s)" and "list_all b_destroyed (batteries s)"
  shows "spawnEnemies rnd dt s = s\<lparr>spawnTimerRef := 0\<rparr>"
proof -
  have "filter (\<lambda>c. \<not> c_destroyed c) (cities s) = []"
    "filter (\<lambda>b. \<not> b_destroyed b) (batteries s) = []"
    using assms(2,3) by (simp_all add: list_all_iff filter_empty_conv)
  then show ?thesis using assms(1) by (simp add: spawnEnemies_def Let_def)
qed

lemma spawnEnemies_fires:
  assumes "spawnTimerRef s + dt > spawnInterval (scoreRef s)"
    and "\<not> (list_all c_destroyed (cities s) \<and> list_all b_destroyed (batteries s))"
  shows "\<exists>e. spawnEnemies rnd dt s = s\<lparr>spawnTimerRef := 0, enemiesRef := enemiesRef s @ [e]\<rparr> \<and>
     active e \<and> y (pos e) = - 20 \<and> 0 \<le> x (pos e) \<and> x (pos e) < GAME_WIDTH \<and>
     target e \<in> c_pos ` {c \<in> set (cities s). \<not> c_destroyed c} \<union>
                b_pos ` {b \<in> set (batteries s). \<not> b_destroyed b}"
proof -
  define opts where "opts = map c_pos (filter (\<lambda>c. \<not> c_destroyed c) (cities s)) @
                            map b_pos (filter (\<lambda>b. \<not> b_destroyed b) (batteries s))"
  have ne: "0 < length opts"
    using assms(2) by (auto simp add: opts_def list_all_iff filter_empty_conv)
  then have "opts ! nat \<lfloor>Rep_rand01 (rTarget rnd) * real (length opts)\<rfloor> \<in> set opts"
    by (intro nth_mem random_index_in_range)
  then have t: "opts ! nat \<lfloor>Rep_rand01 (rTarget rnd) * real (length opts)\<rfloor> \<in>
      c_pos ` {c \<in> set (cities s). \<not> c_destroyed c} \<union>
      b_pos ` {b \<in> set (batteries s). \<not> b_destroyed b}"
    by (auto simp add: opts_def)
  have r: "0 \<le> Rep_rand01 (rPosX rnd)" "Rep_rand01 (rPosX rnd) < 1"
    using Rep_rand01 [of "rPosX rnd"] by simp_all
  define e where "e =
       \<lparr>pos = \<lparr>x = Rep_rand01 (rPosX rnd) * GAME_WIDTH, y = - 20\<rparr>,
        speed = (0.8 + Rep_rand01 (rSpeed rnd) * 0.6) * speedMult (mode (gameState s)),
        radius = 2, color = COLORS_ENEMY_MISSILE, active = True,
        target = opts ! nat \<lfloor>Rep_rand01 (rTarget rnd) * real (length opts)\<rfloor>,
        startPos = \<lparr>x = Rep_rand01 (rStartX rnd) * GAME_WIDTH, y = - 20\<rparr>\<rparr>"
  have "spawnEnemies rnd dt s = s\<lparr>spawnTimerRef := 0, enemiesRef := enemiesRef s @
      [\<lparr>pos = \<lparr>x = Rep_rand01 (rPosX rnd) * GAME_WIDTH, y = - 20\<rparr>,
        speed = (0.8 + Rep_rand01 (rSpeed rnd) * 0.6) * speedMult (mode (gameState s)),
        radius = 2, color = COLORS_ENEMY_MISSILE, active = True,
        target = opts ! nat \<lfloor>Rep_rand01 (rTarget rnd) * real (length opts)\<rfloor>,
        startPos = \<lparr>x = Rep_rand01 (rStartX rnd) * GAME_WIDTH, y = - 20\<rparr>\<rparr>]\<rparr>"
    using assms(1) ne by (simp add: spawnEnemies_def Let_def opts_def)
  then have "spawnEnemies rnd dt s = s\<lparr>spawnTimerRef := 0, enemiesRef := enemiesRef s @ [e]\<rparr>"
    by (simp only: e_def)
  moreover have "active e \<and> y (pos e) = - 20 \<and> 0 \<le> x (pos e) \<and> x (pos e) < GAME_WIDTH \<and>
     target e \<in> c_pos ` {c \<in> set (cities s). \<not> c_destroyed c} \<union>
                b_pos ` {b \<in> set (batteries s). \<not> b_destroyed b}"
    using t r by (simp add: e_def GAME_WIDTH_def)
  ultimately show ?thesis by blast
qed

text \<open>
  C2. With the score 20 the interval of the code is 1980 ms, where flooring the score to
  hundreds gives 2000 ms: a frame that brings the accumulator from 1975 to 1991.67 spawns
  an enemy and resets the accumulator, though 1991.67 does not exceed 2000.
\<close>

theorem spawn_interval_not_floored:
  "spawnInterval 20 = 1980 \<and>
   spawnIntervalSpec 20 = 2000 \<and>
   \<not> (spawnTimerRef (examplePlaying\<lparr>spawnTimerRef := 1975, scoreRef := 20\<rparr>) + 16.67
        > spawnIntervalSpec (scoreRef (examplePlaying\<lparr>spawnTimerRef := 1975, scoreRef := 20\<rparr>))) \<and>
   update exampleDraws 1016.67 (examplePlaying\<lparr>spawnTimerRef := 1975, scoreRef := 20\<rparr>) =
   examplePlaying
     \<lparr>enemiesRef :=
        [\<lparr>pos = \<lparr>x = 200, y = - 189 / 10\<rparr>, speed = 11 / 10, radius = 2,
          color = COLORS_ENEMY_MISSILE, active = True, target = \<lparr>x = 200, y = 570\<rparr>,
          startPos = \<lparr>x = 400, y = - 20\<rparr>\<rparr>],
      lastTimeRef := 1016.67, spawnTimerRef := 0, scoreRef := 20\<rparr>"
proof -
  have a: "status (gameState (examplePlaying\<lparr>spawnTimerRef := 1975, scoreRef := 20\<rparr>)) = PLAYING"
    by (simp add: examplePlaying_value)
  have sp: "spawnEnemies exampleDraws 16.67
      (examplePlaying\<lparr>spawnTimerRef := 1975, scoreRef := 20, lastTimeRef := 1016.67\<rparr>) =
     examplePlaying\<lparr>spawnTimerRef := 0, scoreRef := 20, lastTimeRef := 1016.67,
       enemiesRef := [\<lparr>pos = \<lparr>x = 200, y = - 20\<rparr>, speed = 11 / 10, radius = 2,
          color = COLORS_ENEMY_MISSILE, active = True, target = \<lparr>x = 200, y = 570\<rparr>,
          startPos = \<lparr>x = 400, y = - 20\<rparr>\<rparr>]\<rparr>"
    by (simp add: spawnEnemies_def spawnInterval_def examplePlaying_value exampleDraws_def
        Abs_rand01_inverse GAME_WIDTH_def INITIAL_CITIES_def INITIAL_BATTERIES_def)
  have en: "enemiesPhase 1
      (examplePlaying\<lparr>spawnTimerRef := 0, scoreRef := 20, lastTimeRef := 1016.67,
       enemiesRef := [\<lparr>pos = \<lparr>x = 200, y = - 20\<rparr>, speed = 11 / 10, radius = 2,
          color = COLORS_ENEMY_MISSILE, active = True, target = \<lparr>x = 200, y = 570\<rparr>,
          startPos = \<lparr>x = 400, y = - 20\<rparr>\<rparr>]\<rparr>) =
     examplePlaying\<lparr>spawnTimerRef := 0, scoreRef := 20, lastTimeRef := 1016.67,
       enemiesRef := [\<lparr>pos = \<lparr>x = 200, y = - 189 / 10\<rparr>, speed = 11 / 10, radius = 2,
          color = COLORS_ENEMY_MISSILE, active = True, target = \<lparr>x = 200, y = 570\<rparr>,
          startPos = \<lparr>x = 400, y = - 20\<rparr>\<rparr>]\<rparr>"
    by (simp add: enemiesPhase_def updateEnemy_def moveEnemy_def checkCollisions_eq
        examplePlaying_value sqrt_348100 Let_def)
  have u: "update exampleDraws 1016.67 (examplePlaying\<lparr>spawnTimerRef := 1975, scoreRef := 20\<rparr>) =
   examplePlaying
     \<lparr>enemiesRef :=
        [\<lparr>pos = \<lparr>x = 200, y = - 189 / 10\<rparr>, speed = 11 / 10, radius = 2,
          color = COLORS_ENEMY_MISSILE, active = True, target = \<lparr>x = 200, y = 570\<rparr>,
          startPos = \<lparr>x = 400, y = - 20\<rparr>\<rparr>],
      lastTimeRef := 1016.67, spawnTimerRef := 0, scoreRef := 20\<rparr>"
    unfolding update_playing [OF a]
    apply (simp add: examplePlaying_value)
    apply (simp add: sp [unfolded examplePlaying_value, simplified] missilesPhase_Nil)
    apply (simp add: en [unfolded examplePlaying_value, simplified])
    apply (simp add: explosionsPhase_def cleanup_def checkGameOver_def WIN_SCORE_def
        INITIAL_BATTERIES_def)
    done
  show ?thesis
    using u by (simp add: spawnInterval_def spawnIntervalSpec_def examplePlaying_value)
qed

section \<open>Launching a missile\<close>

lemma findBestBattery_snoc:
  "findBestBattery tx (bs @ [b]) = closerBattery tx (findBestBattery tx bs) b"
  by (simp add: findBestBattery_def)

lemma findBestBattery_char:
  "case findBestBattery tx bs of
     None \<Rightarrow> \<forall>b \<in> set bs. \<not> eligible b
   | Some (b, d) \<Rightarrow>
       b \<in> set bs \<and> eligible b \<and> d = \<bar>x (b_pos b) - tx\<bar> \<and>
       (\<forall>b' \<in> set bs. eligible b' \<longrightarrow> d \<le> \<bar>x (b_pos b') - tx\<bar>)"
proof (induction bs rule: rev_induct)
  case Nil
  show ?case by (simp add: findBestBattery_def)
next
  case (snoc a bs)
  show ?case
  proof (cases "findBestBattery tx bs")
    case None
    with snoc show ?thesis
      by (auto simp add: findBestBattery_snoc closerBattery_def eligible_def)
  next
    case (Some bd)
    obtain b d where bd: "bd = (b, d)" by (cases bd)
    with Some snoc show ?thesis
      by (auto simp add: findBestBattery_snoc closerBattery_def eligible_def Let_def)
  qed
qed

lemma launchRequest_idle:
  "\<not> (\<exists>b \<in> set (batteries s). eligible b) \<Longrightarrow> launchRequest s p = s"
  using findBestBattery_char [where tx = "x p" and bs = "batteries s"]
  by (auto simp add: launchRequest_def split: option.splits)

lemma launchRequest_fires:
  assumes el: "\<exists>b \<in> set (batteries s). eligible b"
    and di: "distinct (map b_id (batteries s))"
  shows "\<exists>b \<in> set (batteries s). eligible b \<and>
     (\<forall>b' \<in> set (batteries s). eligible b' \<longrightarrow>
        \<bar>x (b_pos b) - x p\<bar> \<le> \<bar>x (b_pos b') - x p\<bar>) \<and>
     launchRequest s p =
       s\<lparr>batteries :=
           map (\<lambda>pb. if pb = b then pb\<lparr>missiles := missiles pb - 1\<rparr> else pb) (batteries s),
         missilesRef := missilesRef s @
           [\<lparr>pos = b_pos b, speed = 5 * speedMult (mode (gameState s)), radius = 2,
             color = COLORS_PLAYER_MISSILE, active = True, target = p,
             startPos = b_pos b\<rparr>]\<rparr>"
proof -
  obtain b d where f: "findBestBattery (x p) (batteries s) = Some (b, d)"
    using findBestBattery_char [where tx = "x p" and bs = "batteries s"] el
    by (cases "findBestBattery (x p) (batteries s)") auto
  then have b: "b \<in> set (batteries s)" "eligible b"
    and m: "\<forall>b' \<in> set (batteries s). eligible b' \<longrightarrow>
        \<bar>x (b_pos b) - x p\<bar> \<le> \<bar>x (b_pos b') - x p\<bar>"
    using findBestBattery_char [where tx = "x p" and bs = "batteries s"] by auto
  have "b_id pb = b_id b \<longleftrightarrow> pb = b" if "pb \<in> set (batteries s)" for pb
    using that b(1) di by (auto simp add: distinct_map inj_on_def)
  then have "map (\<lambda>pb. if b_id pb = b_id b then pb\<lparr>missiles := missiles pb - 1\<rparr> else pb)
        (batteries s) =
     map (\<lambda>pb. if pb = b then pb\<lparr>missiles := missiles pb - 1\<rparr> else pb) (batteries s)"
    by (intro map_cong) auto
  then have "launchRequest s p =
       s\<lparr>batteries :=
           map (\<lambda>pb. if pb = b then pb\<lparr>missiles := missiles pb - 1\<rparr> else pb) (batteries s),
         missilesRef := missilesRef s @
           [\<lparr>pos = b_pos b, speed = 5 * speedMult (mode (gameState s)), radius = 2,
             color = COLORS_PLAYER_MISSILE, active = True, target = p,
             startPos = b_pos b\<rparr>]\<rparr>"
    by (simp add: launchRequest_def f)
  with b m show ?thesis by blast
qed

lemma launchRequest_batteries_inv:
  assumes di: "distinct (map b_id (batteries s))"
    and inv: "list_all (\<lambda>b. 0 \<le> missiles b \<and> missiles b \<le> maxMissiles b) (batteries s)"
  shows "map b_id (batteries (launchRequest s p)) = map b_id (batteries s) \<and>
     list_all (\<lambda>b. 0 \<le> missiles b \<and> missiles b \<le> maxMissiles b)
       (batteries (launchRequest s p))"
proof (cases "\<exists>b \<in> set (batteries s). eligible b")
  case True
  from launchRequest_fires [OF True di, of p] obtain b where b: "eligible b"
    and l: "batteries (launchRequest s p) =
      map (\<lambda>pb. if pb = b then pb\<lparr>missiles := missiles pb - 1\<rparr> else pb) (batteries s)"
    by auto
  have "map b_id (batteries (launchRequest s p)) = map b_id (batteries s)"
    unfolding l by (induction "batteries s") auto
  moreover have "list_all (\<lambda>b. 0 \<le> missiles b \<and> missiles b \<le> maxMissiles b)
       (batteries (launchRequest s p))"
    unfolding l using inv b by (auto simp add: list_all_iff eligible_def)
  ultimately show ?thesis by simp
next
  case False
  then show ?thesis using inv by (simp add: launchRequest_idle)
qed

lemma update_batteries_inv:
  assumes inv: "list_all (\<lambda>b. 0 \<le> missiles b \<and> missiles b \<le> maxMissiles b) (batteries s)"
  shows "map b_id (batteries (update rnd time s)) = map b_id (batteries s) \<and>
     list_all (\<lambda>b. 0 \<le> missiles b \<and> missiles b \<le> maxMissiles b)
       (batteries (update rnd time s))"
proof -
  have l: "list_all2 batteryLater (batteries s) (batteries (update rnd time s))"
    and m: "map missiles (batteries (update rnd time s)) = map missiles (batteries s)"
    using update_later [of s rnd time] by simp_all
  have len: "length (batteries (update rnd time s)) = length (batteries s)"
    using l by (simp add: list_all2_lengthD)
  have n: "batteryLater (batteries s ! i) (batteries (update rnd time s) ! i) \<and>
      missiles (batteries (update rnd time s) ! i) = missiles (batteries s ! i)"
    if "i < length (batteries s)" for i
  proof -
    have "map missiles (batteries (update rnd time s)) ! i = map missiles (batteries s) ! i"
      by (simp add: m)
    then show ?thesis using that l len by (simp add: list_all2_nthD)
  qed
  have "map b_id (batteries (update rnd time s)) = map b_id (batteries s)"
    using len n by (auto simp add: list_eq_iff_nth_eq batteryLater_def)
  moreover have "list_all (\<lambda>b. 0 \<le> missiles b \<and> missiles b \<le> maxMissiles b)
       (batteries (update rnd time s))"
    using inv len n by (auto simp add: list_all_length batteryLater_def)
  ultimately show ?thesis by simp
qed

lemma reachable_batteries:
  "reachable s \<Longrightarrow>
   map b_id (batteries s) = map b_id INITIAL_BATTERIES \<and>
   list_all (\<lambda>b. 0 \<le> missiles b \<and> missiles b \<le> maxMissiles b) (batteries s)"
proof (induction rule: reachable.induct)
  case reachable_init
  show ?case by (simp add: initialState_def INITIAL_BATTERIES_def)
next
  case (reachable_start s m)
  show ?case by (simp add: startGame_value INITIAL_BATTERIES_def)
next
  case (reachable_click s p)
  then have "distinct (map b_id (batteries s))"
    by (simp add: INITIAL_BATTERIES_def)
  then show ?case
    using reachable_click.IH launchRequest_batteries_inv [of s p]
    by (simp add: handleCanvasClick_def)
next
  case (reachable_frame s time rnd)
  then show ?case using update_batteries_inv [of s rnd time] by simp
qed

text \<open>
  C9. A launch towards the point \<open>p\<close> (\<open>launchRequest\<close>, the part of the click
  handler after it has computed the point), in a state whose batteries have distinct
  identifiers: if some battery is not destroyed and has missiles, one of those with the
  smallest \<open>\<bar>battery.x - p.x\<bar>\<close> loses exactly one missile, no other battery changes,
  and a missile from that battery's position to \<open>p\<close> is appended; if there is none,
  the state is unchanged. The click handler launches only while the status is PLAYING.
  In every state of a session the identifiers are distinct and every battery's stock is
  between 0 and \<open>maxMissiles\<close>.
\<close>

theorem launch_request:
  "(distinct (map b_id (batteries s)) \<longrightarrow>
     (if \<exists>b \<in> set (batteries s). eligible b then
        \<exists>b \<in> set (batteries s). eligible b \<and>
          (\<forall>b' \<in> set (batteries s). eligible b' \<longrightarrow>
             \<bar>x (b_pos b) - x p\<bar> \<le> \<bar>x (b_pos b') - x p\<bar>) \<and>
          launchRequest s p =
            s\<lparr>batteries :=
                map (\<lambda>pb. if pb = b then pb\<lparr>missiles := missiles pb - 1\<rparr> else pb)
                  (batteries s),
              missilesRef := missilesRef s @
                [\<lparr>pos = b_pos b, speed = 5 * speedMult (mode (gameState s)), radius = 2,
                  color = COLORS_PLAYER_MISSILE, active = True, target = p,
                  startPos = b_pos b\<rparr>]\<rparr>
      else launchRequest s p = s)) \<and>
   handleCanvasClick s p =
     (if status (gameState s) = PLAYING then launchRequest s p else s) \<and>
   (reachable s \<longrightarrow>
      distinct (map b_id (batteries s)) \<and>
      list_all (\<lambda>b. 0 \<le> missiles b \<and> missiles b \<le> maxMissiles b) (batteries s))"
proof -
  have a: "distinct (map b_id (batteries s)) \<longrightarrow>
     (if \<exists>b \<in> set (batteries s). eligible b then
        \<exists>b \<in> set (batteries s). eligible b \<and>
          (\<forall>b' \<in> set (batteries s). eligible b' \<longrightarrow>
             \<bar>x (b_pos b) - x p\<bar> \<le> \<bar>x (b_pos b') - x p\<bar>) \<and>
          launchRequest s p =
            s\<lparr>batteries :=
                map (\<lambda>pb. if pb = b then pb\<lparr>missiles := missiles pb - 1\<rparr> else pb)
                  (batteries s),
              missilesRef := missilesRef s @
                [\<lparr>pos = b_pos b, speed = 5 * speedMult (mode (gameState s)), radius = 2,
                  color = COLORS_PLAYER_MISSILE, active = True, target = p,
                  startPos = b_pos b\<rparr>]\<rparr>
      else launchRequest s p = s)"
    using launchRequest_fires [of s p] launchRequest_idle [of s p]
    by (cases "\<exists>b \<in> set (batteries s). eligible b") simp_all
  have b: "handleCanvasClick s p =
     (if status (gameState s) = PLAYING then launchRequest s p else s)"
    by (simp add: handleCanvasClick_def)
  have c: "reachable s \<longrightarrow>
      distinct (map b_id (batteries s)) \<and>
      list_all (\<lambda>b. 0 \<le> missiles b \<and> missiles b \<le> maxMissiles b) (batteries s)"
    using reachable_batteries [of s] by (simp add: INITIAL_BATTERIES_def)
  from a b c show ?thesis by (intro conjI)
qed


lemma reachable_examplePlaying: "reachable examplePlaying"
proof -
  have "reachable (startGame LOW initialState)"
    by (rule reachable_start [OF reachable_init])
  then have "reachable (update exampleDraws 1000 (startGame LOW initialState))"
    by (rule reachable_frame) (simp add: startGame_value)
  then show ?thesis by (simp only: examplePlaying_frame)
qed

theorem launch_request_witness:
  "distinct (map b_id (batteries examplePlaying)) \<and>
   (\<exists>b \<in> set (batteries examplePlaying). eligible b) \<and>
   launchRequest examplePlaying \<lparr>x = 120, y = 300\<rparr> =
     examplePlaying
       \<lparr>batteries := (hd INITIAL_BATTERIES)\<lparr>missiles := 19\<rparr> # tl INITIAL_BATTERIES,
        missilesRef :=
          [\<lparr>pos = \<lparr>x = 100, y = 560\<rparr>, speed = 5, radius = 2,
            color = COLORS_PLAYER_MISSILE, active = True,
            target = \<lparr>x = 120, y = 300\<rparr>, startPos = \<lparr>x = 100, y = 560\<rparr>\<rparr>]\<rparr> \<and>
   distinct (map b_id (batteries (examplePlaying\<lparr>batteries :=
      map (\<lambda>b. b\<lparr>b_destroyed := True\<rparr>) INITIAL_BATTERIES\<rparr>))) \<and>
   launchRequest (examplePlaying\<lparr>batteries :=
      map (\<lambda>b. b\<lparr>b_destroyed := True\<rparr>) INITIAL_BATTERIES\<rparr>) \<lparr>x = 120, y = 300\<rparr> =
     examplePlaying\<lparr>batteries := map (\<lambda>b. b\<lparr>b_destroyed := True\<rparr>) INITIAL_BATTERIES\<rparr> \<and>
   reachable examplePlaying \<and>
   list_all (\<lambda>b. 0 \<le> missiles b \<and> missiles b \<le> maxMissiles b) (batteries examplePlaying)"
proof -
  have d: "distinct (map b_id (batteries examplePlaying))"
    by (simp add: examplePlaying_value INITIAL_BATTERIES_def)
  have e: "\<exists>b \<in> set (batteries examplePlaying). eligible b"
    by (simp add: examplePlaying_value INITIAL_BATTERIES_def eligible_def)
  have l: "launchRequest examplePlaying \<lparr>x = 120, y = 300\<rparr> =
     examplePlaying
       \<lparr>batteries := (hd INITIAL_BATTERIES)\<lparr>missiles := 19\<rparr> # tl INITIAL_BATTERIES,
        missilesRef :=
          [\<lparr>pos = \<lparr>x = 100, y = 560\<rparr>, speed = 5, radius = 2,
            color = COLORS_PLAYER_MISSILE, active = True,
            target = \<lparr>x = 120, y = 300\<rparr>, startPos = \<lparr>x = 100, y = 560\<rparr>\<rparr>]\<rparr>"
    using launch_request [of examplePlaying "\<lparr>x = 120, y = 300\<rparr>", THEN conjunct1] d e
    by (auto simp add: examplePlaying_value INITIAL_BATTERIES_def eligible_def)
  have d2: "distinct (map b_id (batteries (examplePlaying\<lparr>batteries :=
      map (\<lambda>b. b\<lparr>b_destroyed := True\<rparr>) INITIAL_BATTERIES\<rparr>)))"
    by (simp add: INITIAL_BATTERIES_def)
  have n: "launchRequest (examplePlaying\<lparr>batteries :=
      map (\<lambda>b. b\<lparr>b_destroyed := True\<rparr>) INITIAL_BATTERIES\<rparr>) \<lparr>x = 120, y = 300\<rparr> =
     examplePlaying\<lparr>batteries := map (\<lambda>b. b\<lparr>b_destroyed := True\<rparr>) INITIAL_BATTERIES\<rparr>"
    using launch_request [of "examplePlaying\<lparr>batteries :=
      map (\<lambda>b. b\<lparr>b_destroyed := True\<rparr>) INITIAL_BATTERIES\<rparr>" "\<lparr>x = 120, y = 300\<rparr>",
      THEN conjunct1] d2
    by (simp add: INITIAL_BATTERIES_def eligible_def)
  have r: "list_all (\<lambda>b. 0 \<le> missiles b \<and> missiles b \<le> maxMissiles b)
     (batteries examplePlaying)"
    using launch_request [of examplePlaying "\<lparr>x = 120, y = 300\<rparr>", THEN conjunct2,
      THEN conjunct2] reachable_examplePlaying
    by simp
  from d e l d2 n reachable_examplePlaying r show ?thesis by (intro conjI)
qed

end
